theory Spec2Isabelle
  imports Main "HOL-Library.AList"
begin

section \<open>The tree model\<close>

text \<open>
  Token types used by the passes (\<^verbatim>\<open>TokenType.VAR\<close>, \<^verbatim>\<open>TokenType.BANG\<close>, ...). The
  declaration types of a variable declaration list and the operators of unary, binary and
  postfix expressions are all token types in the source.
\<close>

datatype TokenType =
    VAR | LET | CONST
  | BANG | IN | OPEN_ANGLE | PLUS_PLUS | EQUAL | PLUS | MINUS

text \<open>
  Parse trees. The source has one class \<^verbatim>\<open>ParseTree\<close> with a \<^verbatim>\<open>type\<close> discriminant, so the
  model has one datatype with one constructor per node kind; the node kinds are those the
  three passes build or inspect. An absent child (\<^verbatim>\<open>null\<close> in the factory calls, the
  \<^verbatim>\<open>NullTree\<close> sentinel of \<^verbatim>\<open>NullTree.js\<close>) is the constructor \<open>NullTree\<close>. Source locations are
  not modelled: no pass reads them. An identifier token is its name; a function expression is
  a \<open>FunctionDeclaration\<close> without a name. The binding of a catch clause is a binding
  identifier or a pattern (\<^verbatim>\<open>tree.binding.isPattern()\<close>): \<open>Catch\<close> is the catch clause whose
  binding is the binding identifier of the given name, \<open>CatchPattern\<close> the one whose binding is
  an array pattern with the given elements.
\<close>

datatype tree =
    NullTree
  | Program "tree list"
  | Block "tree list"
  | VariableStatement tree
  | VariableDeclarationList TokenType "tree list"
  | VariableDeclaration tree tree
  | BindingIdentifier string
  | ArrayPattern "tree list"
  | IdentifierExpression string
  | ThisExpression
  | LiteralExpression string
  | ArrayLiteralExpression "tree list"
  | MemberExpression tree string
  | MemberLookupExpression tree tree
  | BinaryOperator tree TokenType tree
  | UnaryExpression TokenType tree
  | PostfixExpression tree TokenType
  | ParenExpression tree
  | CallExpression tree tree
  | ArgumentList "tree list"
  | ExpressionStatement tree
  | IfStatement tree tree tree
  | ForInStatement tree tree tree
  | ForStatement tree tree tree tree
  | ContinueStatement "string option"
  | BreakStatement "string option"
  | ReturnStatement tree
  | FunctionDeclaration "string option" tree tree
  | FormalParameterList "tree list"
  | TryStatement tree tree tree
  | Catch string tree
  | CatchPattern "tree list" tree

text \<open>The predefined names of \<^verbatim>\<open>PredefinedName.js\<close> that the passes use.\<close>

definition THIS :: string where "THIS = ''this''"
definition ARGUMENTS :: string where "ARGUMENTS = ''arguments''"
definition PUSH :: string where "PUSH = ''push''"
definition LENGTH :: string where "LENGTH = ''length''"

section \<open>Scope binding analysis\<close>

text \<open>
  Modelled from the spec: \<^verbatim>\<open>semantics/VariableBinder.js\<close> (\<^verbatim>\<open>variablesInBlock\<close>,
  \<^verbatim>\<open>variablesInFunction\<close>) is not among the source files. Section 4.2 of the specification
  gives the two operations: the names bound directly in a block are those of the
  declarations whose declaring construct is a direct statement of the block (variable
  statements of any declaration type and function declaration names), and the names bound
  directly in a function are its formal parameter names together with every
  \<^verbatim>\<open>var\<close>-declared name anywhere in the body, nested function bodies excluded.
  The source tests \<^verbatim>\<open>name in variablesInBlock(tree)\<close>; the model returns the list of names and
  tests membership in its set.
\<close>

fun bindingNames :: "tree \<Rightarrow> string list" where
  "bindingNames (BindingIdentifier x) = [x]"
| "bindingNames (ArrayPattern es) = concat (map bindingNames es)"
| "bindingNames _ = []"

fun declarationNames :: "tree \<Rightarrow> string list" where
  "declarationNames (VariableDeclaration lvalue initializer) = bindingNames lvalue"
| "declarationNames _ = []"

fun directlyBound :: "tree \<Rightarrow> string list" where
  "directlyBound (VariableStatement (VariableDeclarationList ty ds)) =
     concat (map declarationNames ds)"
| "directlyBound (FunctionDeclaration (Some f) ps body) = [f]"
| "directlyBound _ = []"

fun variablesInBlock :: "tree \<Rightarrow> string list" where
  "variablesInBlock (Block statements) = concat (map directlyBound statements)"
| "variablesInBlock _ = []"

fun varNames :: "tree \<Rightarrow> string list" where
  "varNames (VariableDeclarationList ty ds) =
     (if ty = VAR then concat (map declarationNames ds) else []) @ concat (map varNames ds)"
| "varNames (FunctionDeclaration f ps body) = []"
| "varNames NullTree = []"
| "varNames (Program es) = concat (map varNames es)"
| "varNames (Block ss) = concat (map varNames ss)"
| "varNames (VariableStatement ds) = varNames ds"
| "varNames (VariableDeclaration lvalue initializer) = varNames lvalue @ varNames initializer"
| "varNames (BindingIdentifier x) = []"
| "varNames (ArrayPattern es) = concat (map varNames es)"
| "varNames (IdentifierExpression x) = []"
| "varNames ThisExpression = []"
| "varNames (LiteralExpression v) = []"
| "varNames (ArrayLiteralExpression es) = concat (map varNames es)"
| "varNames (MemberExpression operand name) = varNames operand"
| "varNames (MemberLookupExpression operand member) = varNames operand @ varNames member"
| "varNames (BinaryOperator l opr r) = varNames l @ varNames r"
| "varNames (UnaryExpression opr operand) = varNames operand"
| "varNames (PostfixExpression operand opr) = varNames operand"
| "varNames (ParenExpression e) = varNames e"
| "varNames (CallExpression operand args) = varNames operand @ varNames args"
| "varNames (ArgumentList args) = concat (map varNames args)"
| "varNames (ExpressionStatement e) = varNames e"
| "varNames (IfStatement c t e) = varNames c @ varNames t @ varNames e"
| "varNames (ForInStatement i c b) = varNames i @ varNames c @ varNames b"
| "varNames (ForStatement i c inc b) = varNames i @ varNames c @ varNames inc @ varNames b"
| "varNames (ContinueStatement l) = []"
| "varNames (BreakStatement l) = []"
| "varNames (ReturnStatement e) = varNames e"
| "varNames (FormalParameterList ps) = []"
| "varNames (TryStatement b c f) = varNames b @ varNames c @ varNames f"
| "varNames (Catch x body) = varNames body"
| "varNames (CatchPattern es body) = varNames body"

fun parameterNames :: "tree \<Rightarrow> string list" where
  "parameterNames (FormalParameterList ps) = concat (map bindingNames ps)"
| "parameterNames _ = []"

fun variablesInFunction :: "tree \<Rightarrow> string list" where
  "variablesInFunction (FunctionDeclaration f ps body) = parameterNames ps @ varNames body"
| "variablesInFunction _ = []"

section \<open>The alpha renamer\<close>

text \<open>
  \<^verbatim>\<open>createIdentifierExpression\<close> and \<^verbatim>\<open>createFunctionDeclaration\<close> of
  \<^verbatim>\<open>ParseTreeFactory.js\<close> (not among the source files) build the node of their name from their
  arguments; they are the constructors \<open>IdentifierExpression\<close> and \<open>FunctionDeclaration\<close>.
\<close>

text \<open>
  \<^verbatim>\<open>AlphaRenamer.prototype.transformAny\<close>: the five overrides of \<^verbatim>\<open>AlphaRenamer.js\<close>
  (\<^verbatim>\<open>transformBlock\<close>, \<^verbatim>\<open>transformIdentifierExpression\<close>, \<^verbatim>\<open>transformThisExpression\<close>,
  \<^verbatim>\<open>transformFunctionDeclaration\<close>, \<^verbatim>\<open>transformCatch\<close>) are the equations for those node
  kinds. In \<^verbatim>\<open>transformCatch\<close> the test \<^verbatim>\<open>!tree.binding.isPattern()\<close> is the choice between the
  constructors \<open>Catch\<close> and \<open>CatchPattern\<close>; the default traversal leaves a binding identifier
  as it is.
\<close>

text \<open>
  Modelled from the spec: \<^verbatim>\<open>ParseTreeTransformer.js\<close>, the base class whose methods the
  overrides delegate to (\<^verbatim>\<open>proto.transformBlock.call(this, tree)\<close>) and which handles every
  other node kind, is not among the source files. Section 4.1 of the specification gives its
  default: every kind-specific method rebuilds the node by transforming each child and
  reconstructing the same kind of node. The equations for the remaining node kinds follow it.
\<close>

fun alphaTransformAny :: "string \<Rightarrow> string \<Rightarrow> tree \<Rightarrow> tree" where
  "alphaTransformAny oldName newName (Block statements) =
     (if oldName \<in> set (variablesInBlock (Block statements)) then Block statements
      else Block (map (alphaTransformAny oldName newName) statements))"
| "alphaTransformAny oldName newName (IdentifierExpression x) =
     (if oldName = x then IdentifierExpression newName else IdentifierExpression x)"
| "alphaTransformAny oldName newName ThisExpression =
     (if oldName \<noteq> THIS then ThisExpression else IdentifierExpression newName)"
| "alphaTransformAny oldName newName (FunctionDeclaration name ps body) =
     (let name' = (if Some oldName = name then Some newName else name);
          doNotRecurse =
            (oldName = ARGUMENTS \<or> oldName = THIS \<or>
             oldName \<in> set (variablesInFunction (FunctionDeclaration name' ps body)))
      in if doNotRecurse then FunctionDeclaration name' ps body
         else FunctionDeclaration name'
                (alphaTransformAny oldName newName ps) (alphaTransformAny oldName newName body))"
| "alphaTransformAny oldName newName (Catch x body) =
     (if oldName = x then Catch x body
      else Catch x (alphaTransformAny oldName newName body))"
| "alphaTransformAny oldName newName NullTree = NullTree"
| "alphaTransformAny oldName newName (Program es) =
     Program (map (alphaTransformAny oldName newName) es)"
| "alphaTransformAny oldName newName (VariableStatement ds) =
     VariableStatement (alphaTransformAny oldName newName ds)"
| "alphaTransformAny oldName newName (VariableDeclarationList ty ds) =
     VariableDeclarationList ty (map (alphaTransformAny oldName newName) ds)"
| "alphaTransformAny oldName newName (VariableDeclaration lvalue initializer) =
     VariableDeclaration (alphaTransformAny oldName newName lvalue)
                         (alphaTransformAny oldName newName initializer)"
| "alphaTransformAny oldName newName (BindingIdentifier x) = BindingIdentifier x"
| "alphaTransformAny oldName newName (ArrayPattern es) =
     ArrayPattern (map (alphaTransformAny oldName newName) es)"
| "alphaTransformAny oldName newName (LiteralExpression v) = LiteralExpression v"
| "alphaTransformAny oldName newName (ArrayLiteralExpression es) =
     ArrayLiteralExpression (map (alphaTransformAny oldName newName) es)"
| "alphaTransformAny oldName newName (MemberExpression operand name) =
     MemberExpression (alphaTransformAny oldName newName operand) name"
| "alphaTransformAny oldName newName (MemberLookupExpression operand member) =
     MemberLookupExpression (alphaTransformAny oldName newName operand)
                            (alphaTransformAny oldName newName member)"
| "alphaTransformAny oldName newName (BinaryOperator l opr r) =
     BinaryOperator (alphaTransformAny oldName newName l) opr (alphaTransformAny oldName newName r)"
| "alphaTransformAny oldName newName (UnaryExpression opr operand) =
     UnaryExpression opr (alphaTransformAny oldName newName operand)"
| "alphaTransformAny oldName newName (PostfixExpression operand opr) =
     PostfixExpression (alphaTransformAny oldName newName operand) opr"
| "alphaTransformAny oldName newName (ParenExpression e) =
     ParenExpression (alphaTransformAny oldName newName e)"
| "alphaTransformAny oldName newName (CallExpression operand args) =
     CallExpression (alphaTransformAny oldName newName operand)
                    (alphaTransformAny oldName newName args)"
| "alphaTransformAny oldName newName (ArgumentList args) =
     ArgumentList (map (alphaTransformAny oldName newName) args)"
| "alphaTransformAny oldName newName (ExpressionStatement e) =
     ExpressionStatement (alphaTransformAny oldName newName e)"
| "alphaTransformAny oldName newName (IfStatement c t e) =
     IfStatement (alphaTransformAny oldName newName c) (alphaTransformAny oldName newName t)
                 (alphaTransformAny oldName newName e)"
| "alphaTransformAny oldName newName (ForInStatement i c b) =
     ForInStatement (alphaTransformAny oldName newName i) (alphaTransformAny oldName newName c)
                    (alphaTransformAny oldName newName b)"
| "alphaTransformAny oldName newName (ForStatement i c inc b) =
     ForStatement (alphaTransformAny oldName newName i) (alphaTransformAny oldName newName c)
                  (alphaTransformAny oldName newName inc) (alphaTransformAny oldName newName b)"
| "alphaTransformAny oldName newName (ContinueStatement l) = ContinueStatement l"
| "alphaTransformAny oldName newName (BreakStatement l) = BreakStatement l"
| "alphaTransformAny oldName newName (ReturnStatement e) =
     ReturnStatement (alphaTransformAny oldName newName e)"
| "alphaTransformAny oldName newName (FormalParameterList ps) =
     FormalParameterList (map (alphaTransformAny oldName newName) ps)"
| "alphaTransformAny oldName newName (TryStatement b c f) =
     TryStatement (alphaTransformAny oldName newName b) (alphaTransformAny oldName newName c)
                  (alphaTransformAny oldName newName f)"
| "alphaTransformAny oldName newName (CatchPattern es body) =
     CatchPattern (map (alphaTransformAny oldName newName) es)
                  (alphaTransformAny oldName newName body)"

text \<open>\<^verbatim>\<open>AlphaRenamer.rename(tree, oldName, newName)\<close>.\<close>

definition rename :: "tree \<Rightarrow> string \<Rightarrow> string \<Rightarrow> tree" where
  "rename t oldName newName = alphaTransformAny oldName newName t"

text \<open>
  Every name a tree mentions: identifier expressions, binding identifiers and declared function
  names. Used to state that a name is new to a tree.
\<close>

fun allNames :: "tree \<Rightarrow> string list" where
  "allNames (BindingIdentifier x) = [x]"
| "allNames (IdentifierExpression x) = [x]"
| "allNames (FunctionDeclaration f ps body) =
     (case f of None \<Rightarrow> [] | Some x \<Rightarrow> [x]) @ allNames ps @ allNames body"
| "allNames NullTree = []"
| "allNames (Program es) = concat (map allNames es)"
| "allNames (Block ss) = concat (map allNames ss)"
| "allNames (VariableStatement ds) = allNames ds"
| "allNames (VariableDeclarationList ty ds) = concat (map allNames ds)"
| "allNames (VariableDeclaration lvalue initializer) = allNames lvalue @ allNames initializer"
| "allNames (ArrayPattern es) = concat (map allNames es)"
| "allNames ThisExpression = []"
| "allNames (LiteralExpression v) = []"
| "allNames (ArrayLiteralExpression es) = concat (map allNames es)"
| "allNames (MemberExpression operand name) = allNames operand"
| "allNames (MemberLookupExpression operand member) = allNames operand @ allNames member"
| "allNames (BinaryOperator l opr r) = allNames l @ allNames r"
| "allNames (UnaryExpression opr operand) = allNames operand"
| "allNames (PostfixExpression operand opr) = allNames operand"
| "allNames (ParenExpression e) = allNames e"
| "allNames (CallExpression operand args) = allNames operand @ allNames args"
| "allNames (ArgumentList args) = concat (map allNames args)"
| "allNames (ExpressionStatement e) = allNames e"
| "allNames (IfStatement c t e) = allNames c @ allNames t @ allNames e"
| "allNames (ForInStatement i c b) = allNames i @ allNames c @ allNames b"
| "allNames (ForStatement i c inc b) = allNames i @ allNames c @ allNames inc @ allNames b"
| "allNames (ContinueStatement l) = []"
| "allNames (BreakStatement l) = []"
| "allNames (ReturnStatement e) = allNames e"
| "allNames (FormalParameterList ps) = concat (map allNames ps)"
| "allNames (TryStatement b c f) = allNames b @ allNames c @ allNames f"
| "allNames (Catch x body) = x # allNames body"
| "allNames (CatchPattern es body) = concat (map allNames es) @ allNames body"

text \<open>The \<^verbatim>\<open>name\<close> field of a function declaration.\<close>

definition functionName :: "tree \<Rightarrow> string option" where
  "functionName t = (case t of FunctionDeclaration n ps b \<Rightarrow> n | _ \<Rightarrow> None)"

text \<open>The function \<^verbatim>\<open>function f(x) { return x; }\<close> of the specification's example.\<close>

definition exampleFunction :: tree where
  "exampleFunction =
     FunctionDeclaration (Some ''f'') (FormalParameterList [BindingIdentifier ''x''])
       (Block [ReturnStatement (IdentifierExpression ''x'')])"

section \<open>The unique identifier generator and the factory\<close>

text \<open>
  The identifier generator (\<^verbatim>\<open>UniqueIdentifierGenerator\<close>, not among the source files) is a
  parameter of the passes: \<^verbatim>\<open>generateUniqueIdentifier()\<close> takes the generator's state and
  returns the identifier with the next state.
\<close>

type_synonym 'g generator = "'g \<Rightarrow> string \<times> 'g"

text \<open>
  A generator for running the passes on examples: a counter, the identifiers \<^verbatim>\<open>$0\<close>,
  \<^verbatim>\<open>$1\<close>, ... (one digit is enough for the examples).
\<close>

definition counterGenerator :: "nat generator" where
  "counterGenerator n = (''$'' @ [''0123456789'' ! (n mod 10)], Suc n)"

text \<open>
  What a call of the passes can end with other than a value: the
  \<^verbatim>\<open>Error('Invalid left hand side of for in loop')\<close> thrown by \<^verbatim>\<open>transformForInStatement\<close>; the
  \<^verbatim>\<open>TypeError\<close> of the host when a property is read off \<^verbatim>\<open>undefined\<close> or a value that is not
  a function is called; the failure of \<^verbatim>\<open>traceur.assert\<close>. \<open>MalformedTree\<close> is not thrown
  by the source: it stands for the places where the source goes on with a node that is not
  a tree of the datatype (an identifier expression whose token is not an identifier token).
\<close>

datatype error = InvalidLeftHandSide | TypeError | AssertionFailed | MalformedTree

text \<open>
  Modelled from the spec: \<^verbatim>\<open>ParseTreeFactory.js\<close> is not among the source files. Each factory
  function builds the node (or the small subtree) of its name from its arguments, as the
  comments of \<^verbatim>\<open>transformForInStatement\<close> spell out (\<^verbatim>\<open>var $keys = [];\<close>, \<^verbatim>\<open>$keys.push($p)\<close>,
  \<^verbatim>\<open>key = $keys[$i];\<close> ...). \<^verbatim>\<open>createVariableStatement\<close> and
  \<^verbatim>\<open>createVariableDeclarationList\<close> are called with a declaration type, a name and an
  initializer by the for-in pass and with a list by the runtime inliner; the latter are the
  functions named \<open>...FromList\<close> and \<open>...FromDeclarations\<close>.
\<close>

definition createIdentifierExpression :: "string \<Rightarrow> tree" where
  "createIdentifierExpression name = IdentifierExpression name"

definition createVariableDeclaration :: "string \<Rightarrow> tree \<Rightarrow> tree" where
  "createVariableDeclaration name initializer =
     VariableDeclaration (BindingIdentifier name) initializer"

definition createVariableDeclarationList :: "TokenType \<Rightarrow> string \<Rightarrow> tree \<Rightarrow> tree" where
  "createVariableDeclarationList ty name initializer =
     VariableDeclarationList ty [createVariableDeclaration name initializer]"

definition createVariableDeclarationListFromDeclarations :: "TokenType \<Rightarrow> tree list \<Rightarrow> tree" where
  "createVariableDeclarationListFromDeclarations ty declarations =
     VariableDeclarationList ty declarations"

definition createVariableStatement :: "TokenType \<Rightarrow> string \<Rightarrow> tree \<Rightarrow> tree" where
  "createVariableStatement ty name initializer =
     VariableStatement (createVariableDeclarationList ty name initializer)"

definition createVariableStatementFromList :: "tree \<Rightarrow> tree" where
  "createVariableStatementFromList declarationList = VariableStatement declarationList"

definition createEmptyArrayLiteralExpression :: tree where
  "createEmptyArrayLiteralExpression = ArrayLiteralExpression []"

definition createForInStatement :: "tree \<Rightarrow> tree \<Rightarrow> tree \<Rightarrow> tree" where
  "createForInStatement initializer collection body = ForInStatement initializer collection body"

definition createForStatement :: "tree \<Rightarrow> tree \<Rightarrow> tree \<Rightarrow> tree \<Rightarrow> tree" where
  "createForStatement initializer condition increment body =
     ForStatement initializer condition increment body"

definition createMemberExpression :: "string \<Rightarrow> string \<Rightarrow> tree" where
  "createMemberExpression operand memberName =
     MemberExpression (createIdentifierExpression operand) memberName"

definition createMemberLookupExpression :: "tree \<Rightarrow> tree \<Rightarrow> tree" where
  "createMemberLookupExpression operand memberExpression =
     MemberLookupExpression operand memberExpression"

definition createArgumentList :: "tree \<Rightarrow> tree" where
  "createArgumentList argument = ArgumentList [argument]"

definition createCallStatement :: "tree \<Rightarrow> tree \<Rightarrow> tree" where
  "createCallStatement operand args = ExpressionStatement (CallExpression operand args)"

definition createOperatorToken :: "TokenType \<Rightarrow> TokenType" where
  "createOperatorToken operator = operator"

definition createBinaryOperator :: "tree \<Rightarrow> TokenType \<Rightarrow> tree \<Rightarrow> tree" where
  "createBinaryOperator left operator right = BinaryOperator left operator right"

definition createUnaryExpression :: "TokenType \<Rightarrow> tree \<Rightarrow> tree" where
  "createUnaryExpression operator operand = UnaryExpression operator operand"

definition createPostfixExpression :: "tree \<Rightarrow> TokenType \<Rightarrow> tree" where
  "createPostfixExpression operand operator = PostfixExpression operand operator"

definition createParenExpression :: "tree \<Rightarrow> tree" where
  "createParenExpression expression = ParenExpression expression"

definition createAssignmentStatement :: "tree \<Rightarrow> tree \<Rightarrow> tree" where
  "createAssignmentStatement lhs rhs =
     ExpressionStatement (createBinaryOperator lhs (createOperatorToken EQUAL) rhs)"

definition createIfStatement :: "tree \<Rightarrow> tree \<Rightarrow> tree \<Rightarrow> tree" where
  "createIfStatement condition ifClause elseClause = IfStatement condition ifClause elseClause"

definition createContinueStatement :: tree where
  "createContinueStatement = ContinueStatement None"

definition createNumberLiteral :: "string \<Rightarrow> tree" where
  "createNumberLiteral digits = LiteralExpression digits"

definition createBlock :: "tree list \<Rightarrow> tree" where
  "createBlock statements = Block statements"

section \<open>The for-in pass\<close>

text \<open>
  The branch of \<^verbatim>\<open>transformForInStatement\<close> on the loop-variable position
  (\<^verbatim>\<open>tree.initializer.type\<close>): it yields \<^verbatim>\<open>originalKey\<close> and \<^verbatim>\<open>assignOriginalKey\<close>. A
  declaration list is accepted whatever its length and its first declaration is read
  (\<^verbatim>\<open>decList.declarations[0].lvalue\<close>): on an empty list that read is a property read off
  \<^verbatim>\<open>undefined\<close>; when the first declaration does not bind a plain identifier the source passes
  the pattern to \<^verbatim>\<open>createIdentifierExpression\<close> and the result is no tree of the datatype.
\<close>

fun originalKeyAssignment :: "tree \<Rightarrow> tree \<Rightarrow> error + tree \<times> tree" where
  "originalKeyAssignment (VariableDeclarationList declarationType declarations) lookup =
     (case declarations of
        [] \<Rightarrow> Inl TypeError
      | VariableDeclaration (BindingIdentifier name) initializer # _ \<Rightarrow>
          Inr (createIdentifierExpression name,
               createVariableStatement declarationType name lookup)
      | _ \<Rightarrow> Inl MalformedTree)"
| "originalKeyAssignment (IdentifierExpression name) lookup =
     Inr (IdentifierExpression name,
          createAssignmentStatement (IdentifierExpression name) lookup)"
| "originalKeyAssignment _ lookup = Inl InvalidLeftHandSide"

text \<open>
  \<^verbatim>\<open>ForInTransformPass.prototype.transformAny\<close> with its one override,
  \<^verbatim>\<open>transformForInStatement\<close>. The generator's state is threaded through the calls in the
  order the source makes them; a throw is the value \<open>Inl\<close>.
\<close>

text \<open>
  Modelled from the spec: the other node kinds are handled by \<^verbatim>\<open>ParseTreeTransformer.js\<close>,
  which is not among the source files; by section 4.1 of the specification it rebuilds
  each node from its transformed children, here taken from left to right.
\<close>

function (sequential)
  forInTransformAny :: "'g generator \<Rightarrow> tree \<Rightarrow> 'g \<Rightarrow> error + tree \<times> 'g" and
  forInTransformList :: "'g generator \<Rightarrow> tree list \<Rightarrow> 'g \<Rightarrow> error + tree list \<times> 'g" and
  transformForInStatement :: "'g generator \<Rightarrow> tree \<Rightarrow> 'g \<Rightarrow> error + tree \<times> 'g"
where
  "transformForInStatement gen (ForInStatement initializer collection body) s =
     (case forInTransformAny gen body s of
        Inl e \<Rightarrow> Inl e
      | Inr (body', s0) \<Rightarrow>
          (let bodyStatements = (case body' of Block statements \<Rightarrow> statements | _ \<Rightarrow> [body']);
               (keys, s1) = gen s0;
               (collectionName, s2) = gen s1;
               (p, s3) = gen s2;
               (i, s4) = gen s3;
               elements =
                 [createVariableStatement VAR keys createEmptyArrayLiteralExpression,
                  createVariableStatement VAR collectionName collection,
                  createForInStatement
                    (createVariableDeclarationList VAR p NullTree)
                    (createIdentifierExpression collectionName)
                    (createCallStatement
                       (createMemberExpression keys PUSH)
                       (createArgumentList (createIdentifierExpression p)))];
               lookup = createMemberLookupExpression
                          (createIdentifierExpression keys) (createIdentifierExpression i)
           in case originalKeyAssignment initializer lookup of
                Inl e \<Rightarrow> Inl e
              | Inr (originalKey, assignOriginalKey) \<Rightarrow>
                  (let innerBlock =
                         [assignOriginalKey,
                          createIfStatement
                            (createUnaryExpression (createOperatorToken BANG)
                               (createParenExpression
                                  (createBinaryOperator originalKey (createOperatorToken IN)
                                     (createIdentifierExpression collectionName))))
                            createContinueStatement
                            NullTree]
                         @ bodyStatements
                   in Inr (createBlock
                             (elements @
                              [createForStatement
                                 (createVariableDeclarationList VAR i (createNumberLiteral ''0''))
                                 (createBinaryOperator (createIdentifierExpression i)
                                    (createOperatorToken OPEN_ANGLE)
                                    (createMemberExpression keys LENGTH))
                                 (createPostfixExpression (createIdentifierExpression i)
                                    (createOperatorToken PLUS_PLUS))
                                 (createBlock innerBlock)]),
                           s4))))"
| "transformForInStatement gen original s = Inl TypeError"
| "forInTransformList gen [] s = Inr ([], s)"
| "forInTransformList gen (t # ts) s =
     (case forInTransformAny gen t s of
        Inl e \<Rightarrow> Inl e
      | Inr (t', s1) \<Rightarrow>
          (case forInTransformList gen ts s1 of
             Inl e \<Rightarrow> Inl e
           | Inr (ts', s2) \<Rightarrow> Inr (t' # ts', s2)))"
| "forInTransformAny gen (ForInStatement initializer collection body) s =
     transformForInStatement gen (ForInStatement initializer collection body) s"
| "forInTransformAny gen NullTree s = Inr (NullTree, s)"
| "forInTransformAny gen (Program es) s =
     (case forInTransformList gen es s of Inl e \<Rightarrow> Inl e | Inr (es', s1) \<Rightarrow> Inr (Program es', s1))"
| "forInTransformAny gen (Block ss) s =
     (case forInTransformList gen ss s of Inl e \<Rightarrow> Inl e | Inr (ss', s1) \<Rightarrow> Inr (Block ss', s1))"
| "forInTransformAny gen (VariableStatement ds) s =
     (case forInTransformAny gen ds s of
        Inl e \<Rightarrow> Inl e | Inr (ds', s1) \<Rightarrow> Inr (VariableStatement ds', s1))"
| "forInTransformAny gen (VariableDeclarationList ty ds) s =
     (case forInTransformList gen ds s of
        Inl e \<Rightarrow> Inl e | Inr (ds', s1) \<Rightarrow> Inr (VariableDeclarationList ty ds', s1))"
| "forInTransformAny gen (VariableDeclaration lvalue initializer) s =
     (case forInTransformAny gen lvalue s of
        Inl e \<Rightarrow> Inl e
      | Inr (lvalue', s1) \<Rightarrow>
          (case forInTransformAny gen initializer s1 of
             Inl e \<Rightarrow> Inl e
           | Inr (initializer', s2) \<Rightarrow> Inr (VariableDeclaration lvalue' initializer', s2)))"
| "forInTransformAny gen (BindingIdentifier x) s = Inr (BindingIdentifier x, s)"
| "forInTransformAny gen (ArrayPattern es) s =
     (case forInTransformList gen es s of
        Inl e \<Rightarrow> Inl e | Inr (es', s1) \<Rightarrow> Inr (ArrayPattern es', s1))"
| "forInTransformAny gen (IdentifierExpression x) s = Inr (IdentifierExpression x, s)"
| "forInTransformAny gen ThisExpression s = Inr (ThisExpression, s)"
| "forInTransformAny gen (LiteralExpression v) s = Inr (LiteralExpression v, s)"
| "forInTransformAny gen (ArrayLiteralExpression es) s =
     (case forInTransformList gen es s of
        Inl e \<Rightarrow> Inl e | Inr (es', s1) \<Rightarrow> Inr (ArrayLiteralExpression es', s1))"
| "forInTransformAny gen (MemberExpression operand name) s =
     (case forInTransformAny gen operand s of
        Inl e \<Rightarrow> Inl e | Inr (operand', s1) \<Rightarrow> Inr (MemberExpression operand' name, s1))"
| "forInTransformAny gen (MemberLookupExpression operand member) s =
     (case forInTransformAny gen operand s of
        Inl e \<Rightarrow> Inl e
      | Inr (operand', s1) \<Rightarrow>
          (case forInTransformAny gen member s1 of
             Inl e \<Rightarrow> Inl e
           | Inr (member', s2) \<Rightarrow> Inr (MemberLookupExpression operand' member', s2)))"
| "forInTransformAny gen (BinaryOperator l opr r) s =
     (case forInTransformAny gen l s of
        Inl e \<Rightarrow> Inl e
      | Inr (l', s1) \<Rightarrow>
          (case forInTransformAny gen r s1 of
             Inl e \<Rightarrow> Inl e
           | Inr (r', s2) \<Rightarrow> Inr (BinaryOperator l' opr r', s2)))"
| "forInTransformAny gen (UnaryExpression opr operand) s =
     (case forInTransformAny gen operand s of
        Inl e \<Rightarrow> Inl e | Inr (operand', s1) \<Rightarrow> Inr (UnaryExpression opr operand', s1))"
| "forInTransformAny gen (PostfixExpression operand opr) s =
     (case forInTransformAny gen operand s of
        Inl e \<Rightarrow> Inl e | Inr (operand', s1) \<Rightarrow> Inr (PostfixExpression operand' opr, s1))"
| "forInTransformAny gen (ParenExpression e) s =
     (case forInTransformAny gen e s of
        Inl err \<Rightarrow> Inl err | Inr (e', s1) \<Rightarrow> Inr (ParenExpression e', s1))"
| "forInTransformAny gen (CallExpression operand args) s =
     (case forInTransformAny gen operand s of
        Inl e \<Rightarrow> Inl e
      | Inr (operand', s1) \<Rightarrow>
          (case forInTransformAny gen args s1 of
             Inl e \<Rightarrow> Inl e
           | Inr (args', s2) \<Rightarrow> Inr (CallExpression operand' args', s2)))"
| "forInTransformAny gen (ArgumentList args) s =
     (case forInTransformList gen args s of
        Inl e \<Rightarrow> Inl e | Inr (args', s1) \<Rightarrow> Inr (ArgumentList args', s1))"
| "forInTransformAny gen (ExpressionStatement e) s =
     (case forInTransformAny gen e s of
        Inl err \<Rightarrow> Inl err | Inr (e', s1) \<Rightarrow> Inr (ExpressionStatement e', s1))"
| "forInTransformAny gen (IfStatement c t e) s =
     (case forInTransformAny gen c s of
        Inl err \<Rightarrow> Inl err
      | Inr (c', s1) \<Rightarrow>
          (case forInTransformAny gen t s1 of
             Inl err \<Rightarrow> Inl err
           | Inr (t', s2) \<Rightarrow>
               (case forInTransformAny gen e s2 of
                  Inl err \<Rightarrow> Inl err
                | Inr (e', s3) \<Rightarrow> Inr (IfStatement c' t' e', s3))))"
| "forInTransformAny gen (ForStatement i c inc b) s =
     (case forInTransformAny gen i s of
        Inl err \<Rightarrow> Inl err
      | Inr (i', s1) \<Rightarrow>
          (case forInTransformAny gen c s1 of
             Inl err \<Rightarrow> Inl err
           | Inr (c', s2) \<Rightarrow>
               (case forInTransformAny gen inc s2 of
                  Inl err \<Rightarrow> Inl err
                | Inr (inc', s3) \<Rightarrow>
                    (case forInTransformAny gen b s3 of
                       Inl err \<Rightarrow> Inl err
                     | Inr (b', s4) \<Rightarrow> Inr (ForStatement i' c' inc' b', s4)))))"
| "forInTransformAny gen (ContinueStatement l) s = Inr (ContinueStatement l, s)"
| "forInTransformAny gen (BreakStatement l) s = Inr (BreakStatement l, s)"
| "forInTransformAny gen (ReturnStatement e) s =
     (case forInTransformAny gen e s of
        Inl err \<Rightarrow> Inl err | Inr (e', s1) \<Rightarrow> Inr (ReturnStatement e', s1))"
| "forInTransformAny gen (FunctionDeclaration name ps body) s =
     (case forInTransformAny gen ps s of
        Inl e \<Rightarrow> Inl e
      | Inr (ps', s1) \<Rightarrow>
          (case forInTransformAny gen body s1 of
             Inl e \<Rightarrow> Inl e
           | Inr (body', s2) \<Rightarrow> Inr (FunctionDeclaration name ps' body', s2)))"
| "forInTransformAny gen (FormalParameterList ps) s =
     (case forInTransformList gen ps s of
        Inl e \<Rightarrow> Inl e | Inr (ps', s1) \<Rightarrow> Inr (FormalParameterList ps', s1))"
| "forInTransformAny gen (TryStatement b c f) s =
     (case forInTransformAny gen b s of
        Inl err \<Rightarrow> Inl err
      | Inr (b', s1) \<Rightarrow>
          (case forInTransformAny gen c s1 of
             Inl err \<Rightarrow> Inl err
           | Inr (c', s2) \<Rightarrow>
               (case forInTransformAny gen f s2 of
                  Inl err \<Rightarrow> Inl err
                | Inr (f', s3) \<Rightarrow> Inr (TryStatement b' c' f', s3))))"
| "forInTransformAny gen (Catch x body) s =
     (case forInTransformAny gen body s of
        Inl e \<Rightarrow> Inl e | Inr (body', s1) \<Rightarrow> Inr (Catch x body', s1))"
| "forInTransformAny gen (CatchPattern es body) s =
     (case forInTransformList gen es s of
        Inl e \<Rightarrow> Inl e
      | Inr (es', s1) \<Rightarrow>
          (case forInTransformAny gen body s1 of
             Inl e \<Rightarrow> Inl e
           | Inr (body', s2) \<Rightarrow> Inr (CatchPattern es' body', s2)))"
  by pat_completeness auto
termination
  by (relation "measure (\<lambda>x. case x of
        Inl (gen, t, s) \<Rightarrow> 2 * size t + 1
      | Inr (Inl (gen, ts, s)) \<Rightarrow> 2 * size_list size ts
      | Inr (Inr (gen, t, s)) \<Rightarrow> 2 * size t)") auto

text \<open>\<^verbatim>\<open>ForInTransformPass.transformTree(identifierGenerator, tree)\<close>.\<close>

definition transformTree :: "'g generator \<Rightarrow> 'g \<Rightarrow> tree \<Rightarrow> error + tree \<times> 'g" where
  "transformTree gen s t = forInTransformAny gen t s"

section \<open>The runtime inliner\<close>

text \<open>
  The \<^verbatim>\<open>shared\<close> object of the source: one own property, \<^verbatim>\<open>toObject\<close>, whose value is the
  text of the helper.
\<close>

definition toObjectSource :: string where
  "toObjectSource =
     ''function(value) {'' @ [CHR 0x0A] @
     ''        if (value == null)'' @ [CHR 0x0A] @
     ''          throw TypeError();'' @ [CHR 0x0A] @
     ''        return Object(value);'' @ [CHR 0x0A] @
     ''      }''"

definition shared :: "(string \<times> string) list" where
  "shared = [(''toObject'', toObjectSource)]"

text \<open>
  \<^verbatim>\<open>shared\<close> is an object literal, so \<^verbatim>\<open>name in shared\<close> also holds for the properties it
  inherits from \<^verbatim>\<open>Object.prototype\<close>, whose values are not strings: the properties of
  ECMAScript 5.1, section 15.2.4, and the legacy accessors of the engines.
\<close>

definition objectPrototypeNames :: "string list" where
  "objectPrototypeNames =
     [''constructor'', ''toString'', ''toLocaleString'', ''valueOf'', ''hasOwnProperty'',
      ''isPrototypeOf'', ''propertyIsEnumerable'', ''__proto__'', ''__defineGetter__'',
      ''__defineSetter__'', ''__lookupGetter__'', ''__lookupSetter__'']"

text \<open>
  The values \<^verbatim>\<open>register\<close> and \<^verbatim>\<open>get\<close> receive as source: a string, \<^verbatim>\<open>undefined\<close> (the
  optional parameter left out), or a value that is not a string (an inherited property of
  \<^verbatim>\<open>shared\<close>).
\<close>

datatype source = SourceText string | NotAString | Undefined

definition inShared :: "string \<Rightarrow> bool" where
  "inShared name \<longleftrightarrow> name \<in> set (map fst shared) \<or> name \<in> set objectPrototypeNames"

definition sharedValue :: "string \<Rightarrow> source" where
  "sharedValue name =
     (case map_of shared name of
        Some text \<Rightarrow> SourceText text
      | None \<Rightarrow> if name \<in> set objectPrototypeNames then NotAString else Undefined)"

text \<open>The truth value of a source, as \<^verbatim>\<open>traceur.assert(opt_source)\<close> reads it.\<close>

fun truthy :: "source \<Rightarrow> bool" where
  "truthy (SourceText text) = (text \<noteq> [])"
| "truthy NotAString = True"
| "truthy Undefined = False"

text \<open>
  A registry entry and the inliner's state: the generator's state and \<^verbatim>\<open>map_\<close>, an object
  without prototype, here the field \<open>registry\<close>. It is an association list in insertion order, the order
  \<^verbatim>\<open>Object.keys\<close> lists names that are not array indices; assigning to a name keeps its
  place (\<open>AList.update\<close>).
\<close>

record entry =
  expression :: tree
  uid :: string
  inserted :: bool

record 'g RuntimeInliner =
  identifierGenerator :: 'g
  registry :: "(string \<times> entry) list"

text \<open>The constructor \<^verbatim>\<open>RuntimeInliner(identifierGenerator)\<close>.\<close>

definition newRuntimeInliner :: "'g \<Rightarrow> 'g RuntimeInliner" where
  "newRuntimeInliner g = \<lparr>identifierGenerator = g, registry = []\<rparr>"

text \<open>
  The parser (\<^verbatim>\<open>parse(source, name)\<close> builds a \<^verbatim>\<open>SourceFile\<close> and calls the \<^verbatim>\<open>Parser\<close>, neither
  among the source files) is a parameter: a function from the text and the name to a tree.
\<close>

type_synonym parser = "string \<Rightarrow> string \<Rightarrow> tree"

text \<open>The character class \<^verbatim>\<open>[a-zA-Z0-9_$]\<close> of the placeholder pattern.\<close>

definition isNameChar :: "char \<Rightarrow> bool" where
  "isNameChar c \<longleftrightarrow>
     c \<in> set ''abcdefghijklmnopqrstuvwxyzABCDEFGHIJKLMNOPQRSTUVWXYZ0123456789_$''"

text \<open>\<^verbatim>\<open>getAsString(name)\<close>: \<^verbatim>\<open>this.map_[name].uid\<close>, a read off \<^verbatim>\<open>undefined\<close> for a name without entry.\<close>

definition getAsString :: "'g RuntimeInliner \<Rightarrow> string \<Rightarrow> error + string" where
  "getAsString st name =
     (case map_of (registry st) name of None \<Rightarrow> Inl TypeError | Some item \<Rightarrow> Inr (uid item))"

text \<open>The number of \<^verbatim>\<open>%\<close> characters of a text (the measure of the recursion below).\<close>

definition percents :: "string \<Rightarrow> nat" where
  "percents text = length (filter (\<lambda>c. c = CHR ''%'') text)"

fun sourcePercents :: "source \<Rightarrow> nat" where
  "sourcePercents (SourceText text) = percents text"
| "sourcePercents _ = 0"

text \<open>
  \<^verbatim>\<open>register(name, source)\<close> and the \<^verbatim>\<open>source.replace(/%([a-zA-Z0-9_$]+)/g, ...)\<close> inside it.
  \<open>replacePlaceholders\<close> scans the text from left to right: at a \<^verbatim>\<open>%\<close> followed by at least
  one name character the match is the longest run of name characters, the callback runs
  (registering a shared helper first, then reading the identifier of the entry) and the scan
  goes on behind the match; any other character is copied. Both return the state they leave
  behind also when they throw, since the registry is mutated in place: \<open>register\<close> returns
  the error, if any, and the state; \<open>replacePlaceholders\<close> the error or the new text, and the
  state.
\<close>

function (sequential)
  register :: "parser \<Rightarrow> 'g generator \<Rightarrow> string \<Rightarrow> source \<Rightarrow> 'g RuntimeInliner
                 \<Rightarrow> error option \<times> 'g RuntimeInliner" and
  replacePlaceholders :: "parser \<Rightarrow> 'g generator \<Rightarrow> string \<Rightarrow> 'g RuntimeInliner
                 \<Rightarrow> (error + string) \<times> 'g RuntimeInliner"
where
  "register parse gen name src st =
     (if name \<in> set (map fst (registry st)) then (None, st)
      else case src of
        SourceText text \<Rightarrow>
          (case replacePlaceholders parse gen text st of
             (Inl e, st1) \<Rightarrow> (Some e, st1)
           | (Inr text', st1) \<Rightarrow>
               (let (u, g) = gen (identifierGenerator st1)
                in (None,
                    st1\<lparr>identifierGenerator := g,
                        registry := AList.update name
                                  \<lparr>expression = parse text' name, uid = u, inserted = False\<rparr>
                                  (registry st1)\<rparr>)))
      | _ \<Rightarrow> (Some TypeError, st))"
| "replacePlaceholders parse gen [] st = (Inr [], st)"
| "replacePlaceholders parse gen (c # cs) st =
     (if c = CHR ''%'' \<and> takeWhile isNameChar cs \<noteq> [] then
        (let name = takeWhile isNameChar cs;
             rest = dropWhile isNameChar cs;
             (err, st1) = (if inShared name then register parse gen name (sharedValue name) st
                           else (None, st))
         in case err of
              Some e \<Rightarrow> (Inl e, st1)
            | None \<Rightarrow>
                (case getAsString st1 name of
                   Inl e \<Rightarrow> (Inl e, st1)
                 | Inr u \<Rightarrow>
                     (case replacePlaceholders parse gen rest st1 of
                        (Inl e, st2) \<Rightarrow> (Inl e, st2)
                      | (Inr out, st2) \<Rightarrow> (Inr (u @ out), st2))))
      else
        (case replacePlaceholders parse gen cs st of
           (Inl e, st1) \<Rightarrow> (Inl e, st1)
         | (Inr out, st1) \<Rightarrow> (Inr (c # out), st1)))"
  by pat_completeness auto
termination
proof (relation "(\<lambda>x. case x of
          Inl (parse, gen, name, src, st) \<Rightarrow> sourcePercents src
        | Inr (parse, gen, text, st) \<Rightarrow> percents text) <*mlex*>
      measure (\<lambda>x. case x of
          Inl (parse, gen, name, src, st) \<Rightarrow> Suc (case src of SourceText text \<Rightarrow> length text | _ \<Rightarrow> 0)
        | Inr (parse, gen, text, st) \<Rightarrow> length text)", goal_cases)
  case 1
  show ?case by (simp add: wf_mlex)
next
  case (2 parse gen name src st str)
  then show ?case by (simp add: mlex_iff)
next
  case (3 parse gen c cs st name rest)
  have "sourcePercents (sharedValue (takeWhile isNameChar cs)) = 0"
    by (simp add: sharedValue_def shared_def toObjectSource_def percents_def)
  then show ?case using 3 by (simp add: mlex_iff percents_def)
next
  case (4 parse gen c cs st name rest err st1)
  have "percents (dropWhile isNameChar cs) \<le> percents cs"
    unfolding percents_def
    by (metis append_take_drop_id filter_append length_append le_add2 takeWhile_dropWhile_id)
  moreover have "length (dropWhile isNameChar cs) \<le> length cs"
    by (simp add: length_dropWhile_le)
  ultimately show ?case using 4 by (auto simp: mlex_iff percents_def)
next
  case (5 parse gen c cs st)
  then show ?case by (auto simp: mlex_iff percents_def)
qed

text \<open>\<^verbatim>\<open>getAsIdentifierExpression(name)\<close>.\<close>

definition getAsIdentifierExpression :: "'g RuntimeInliner \<Rightarrow> string \<Rightarrow> error + tree" where
  "getAsIdentifierExpression st name =
     (case map_of (registry st) name of
        None \<Rightarrow> Inl TypeError
      | Some item \<Rightarrow> Inr (createIdentifierExpression (uid item)))"

text \<open>
  Modelled from the spec: \<^verbatim>\<open>traceur.assert\<close> is not among the source files; by sections 4.5 and
  7 of the specification a request for a helper without definition is a fatal failure, so a
  failing assertion ends the call with \<open>AssertionFailed\<close>.
\<close>

definition assert :: "bool \<Rightarrow> error option" where
  "assert b = (if b then None else Some AssertionFailed)"

text \<open>\<^verbatim>\<open>get(name, opt_source)\<close>; it returns the error or the identifier expression, and the state.\<close>

definition get :: "parser \<Rightarrow> 'g generator \<Rightarrow> string \<Rightarrow> source \<Rightarrow> 'g RuntimeInliner
                     \<Rightarrow> (error + tree) \<times> 'g RuntimeInliner" where
  "get parse gen name opt_source st =
     (if name \<notin> set (map fst (registry st)) then
        (let opt_source' = (if inShared name then sharedValue name else opt_source)
         in case assert (truthy opt_source') of
              Some e \<Rightarrow> (Inl e, st)
            | None \<Rightarrow>
                (case register parse gen name opt_source' st of
                   (Some e, st1) \<Rightarrow> (Inl e, st1)
                 | (None, st1) \<Rightarrow> (getAsIdentifierExpression st1 name, st1)))
      else (getAsIdentifierExpression st name, st))"

text \<open>
  \<^verbatim>\<open>transformProgram(tree)\<close>: the \<^verbatim>\<open>filter\<close> keeps the entries not yet inserted, the \<^verbatim>\<open>map\<close>
  marks each of them inserted and builds its declaration. \<^verbatim>\<open>tree.programElements\<close> is the
  element list of a program (no elements are pushed for another node kind).
\<close>

fun programElements :: "tree \<Rightarrow> tree list" where
  "programElements (Program es) = es"
| "programElements _ = []"

definition markInserted :: "(string \<times> entry) list \<Rightarrow> (string \<times> entry) list" where
  "markInserted m =
     map (\<lambda>(name, item). if \<not> inserted item then (name, item\<lparr>inserted := True\<rparr>)
                          else (name, item)) m"

definition transformProgram :: "'g RuntimeInliner \<Rightarrow> tree \<Rightarrow> tree \<times> 'g RuntimeInliner" where
  "transformProgram st t =
     (let names = map fst (registry st)
      in if names = [] then (t, st)
         else
           (let vars = map (\<lambda>(name, item). createVariableDeclaration (uid item) (expression item))
                         (filter (\<lambda>(name, item). \<not> inserted item) (registry st));
                st' = st\<lparr>registry := markInserted (registry st)\<rparr>
            in if vars = [] then (t, st')
               else
                 (let variableStatement =
                        createVariableStatementFromList
                          (createVariableDeclarationListFromDeclarations VAR vars)
                  in (Program (variableStatement # programElements t), st'))))"


text \<open>A parser for running the inliner on examples: the expression is the text as a literal.\<close>

definition literalParser :: parser where
  "literalParser text name = LiteralExpression text"

text \<open>
  The matches of \<^verbatim>\<open>/%([a-zA-Z0-9_$]+)/g\<close> in a text, from left to right: the names of its
  placeholders. Used to state which helpers a text refers to.
\<close>

function placeholders :: "string \<Rightarrow> string list" where
  "placeholders [] = []"
| "placeholders (c # cs) =
     (if c = CHR ''%'' \<and> takeWhile isNameChar cs \<noteq> []
      then takeWhile isNameChar cs # placeholders (dropWhile isNameChar cs)
      else placeholders cs)"
  by pat_completeness auto
termination
  by (relation "measure length") (auto simp: length_dropWhile_le less_Suc_eq_le)

text \<open>The names with an entry in the registry (\<^verbatim>\<open>name in this.map_\<close>).\<close>

definition registered :: "'g RuntimeInliner \<Rightarrow> string set" where
  "registered st = set (map fst (registry st))"

section \<open>Properties of the alpha renamer\<close>

subsection \<open>Renaming leaves the binding analysis alone\<close>

lemma bindingNames_alpha: "bindingNames (alphaTransformAny a b t) = bindingNames t"
  by (induction a b t rule: alphaTransformAny.induct) (auto simp: Let_def cong: map_cong)

lemma bindingNames_sub: "set (bindingNames t) \<subseteq> set (allNames t)"
  by (induction t rule: bindingNames.induct) auto

lemma declarationNames_alpha: "declarationNames (alphaTransformAny a b t) = declarationNames t"
  by (cases t) (auto simp: Let_def bindingNames_alpha)

lemma varNames_alpha: "varNames (alphaTransformAny a b t) = varNames t"
  by (induction a b t rule: alphaTransformAny.induct)
     (auto simp: Let_def declarationNames_alpha cong: map_cong)

lemma parameterNames_alpha: "parameterNames (alphaTransformAny a b t) = parameterNames t"
  by (cases t) (auto simp: Let_def bindingNames_alpha comp_def)

lemma declarationNames_sub: "set (declarationNames t) \<subseteq> set (allNames t)"
  using bindingNames_sub by (cases t) auto

lemma varNames_sub: "set (varNames t) \<subseteq> set (allNames t)"
  using declarationNames_sub by (induction t rule: varNames.induct) (auto, blast+)

lemma parameterNames_sub: "set (parameterNames t) \<subseteq> set (allNames t)"
  using bindingNames_sub by (cases t) auto

lemma directlyBound_sub: "set (directlyBound t) \<subseteq> set (allNames t)"
  using declarationNames_sub by (induction t rule: directlyBound.induct) auto

lemma variablesInBlock_sub: "set (variablesInBlock t) \<subseteq> set (allNames t)"
  using directlyBound_sub by (cases t) auto

lemma directlyBound_alpha:
  "a \<notin> set (directlyBound t) \<Longrightarrow> directlyBound (alphaTransformAny a b t) = directlyBound t"
proof (induction t rule: directlyBound.induct)
  case (1 ty ds)
  then show ?case by (simp add: declarationNames_alpha cong: map_cong)
next
  case (2 f ps body)
  then show ?case by (simp add: Let_def)
qed (simp_all add: Let_def)

lemma alpha_absent:
  "m \<notin> set (allNames t) \<Longrightarrow> m \<noteq> THIS \<Longrightarrow> alphaTransformAny m x t = t"
  by (induction m x t rule: alphaTransformAny.induct)
     (auto simp: Let_def map_idI split: option.splits)

lemma variablesInBlock_alpha:
  assumes "a \<notin> set (variablesInBlock (Block ss))"
  shows "variablesInBlock (Block (map (alphaTransformAny a b) ss)) = variablesInBlock (Block ss)"
proof -
  have "\<And>s. s \<in> set ss \<Longrightarrow> directlyBound (alphaTransformAny a b s) = directlyBound s"
    using assms by (intro directlyBound_alpha) auto
  then show ?thesis by (simp add: comp_def cong: map_cong)
qed

lemma variablesInFunction_alpha:
  "variablesInFunction (FunctionDeclaration f (alphaTransformAny a b ps) (alphaTransformAny a b body)) =
   variablesInFunction (FunctionDeclaration g ps body)"
  by (simp add: parameterNames_alpha varNames_alpha)

lemma alpha_round_trip:
  "m \<notin> set (allNames t) \<Longrightarrow> m \<noteq> THIS \<Longrightarrow> m \<noteq> ARGUMENTS \<Longrightarrow> n \<noteq> THIS \<Longrightarrow>
   alphaTransformAny m n (alphaTransformAny n m t) = t"
proof (induction n m t rule: alphaTransformAny.induct)
  case (1 oldName newName statements)
  show ?case
  proof (cases "oldName \<in> set (variablesInBlock (Block statements))")
    case True
    then have "alphaTransformAny oldName newName (Block statements) = Block statements"
      by simp
    then show ?thesis using alpha_absent[OF 1(2) 1(3)] by (simp only:)
  next
    case False
    have "newName \<notin> set (variablesInBlock (Block statements))"
      using variablesInBlock_sub[of "Block statements"] 1(2) by blast
    then have nb: "newName \<notin> set (variablesInBlock (Block (map (alphaTransformAny oldName newName) statements)))"
      using variablesInBlock_alpha[OF False] by simp
    have "map (alphaTransformAny newName oldName) (map (alphaTransformAny oldName newName) statements) = statements"
      using 1 False by (auto simp: map_idI)
    then show ?thesis using False nb by (simp del: variablesInBlock.simps)
  qed
next
  case (4 oldName newName name ps body)
  let ?name' = "if Some oldName = name then Some newName else name"
  let ?dnr = "oldName = ARGUMENTS \<or> oldName = THIS \<or>
    oldName \<in> set (variablesInFunction (FunctionDeclaration ?name' ps body))"
  have nps: "newName \<notin> set (allNames ps)" and nbody: "newName \<notin> set (allNames body)"
    and nname: "name \<noteq> Some newName"
    using 4(3) by (auto split: option.splits)
  have nvf: "\<And>f. newName \<notin> set (variablesInFunction (FunctionDeclaration f ps body))"
    using parameterNames_sub[of ps] varNames_sub[of body] nps nbody by auto
  have back_name: "(if Some newName = ?name' then Some oldName else ?name') = name"
    using nname by auto
  show ?case
  proof (cases ?dnr)
    case True
    then have fwd: "alphaTransformAny oldName newName (FunctionDeclaration name ps body) =
        FunctionDeclaration ?name' ps body"
      by (simp add: Let_def)
    have "alphaTransformAny newName oldName (FunctionDeclaration ?name' ps body) =
        FunctionDeclaration name ps body"
      using nvf back_name 4(4,5) alpha_absent[OF nps 4(4)] alpha_absent[OF nbody 4(4)]
      by (simp add: Let_def del: variablesInFunction.simps)
    then show ?thesis using fwd by (simp only:)
  next
    case False
    then have fwd: "alphaTransformAny oldName newName (FunctionDeclaration name ps body) =
        FunctionDeclaration ?name' (alphaTransformAny oldName newName ps)
          (alphaTransformAny oldName newName body)"
      by (simp add: Let_def)
    have ips: "alphaTransformAny newName oldName (alphaTransformAny oldName newName ps) = ps"
      using 4(1)[OF refl refl False nps 4(4,5,6)] .
    have ibody: "alphaTransformAny newName oldName (alphaTransformAny oldName newName body) = body"
      using 4(2)[OF refl refl False nbody 4(4,5,6)] .
    have nvf': "\<And>f. newName \<notin> set (variablesInFunction (FunctionDeclaration f
        (alphaTransformAny oldName newName ps) (alphaTransformAny oldName newName body)))"
      using nvf variablesInFunction_alpha by simp
    have "alphaTransformAny newName oldName (FunctionDeclaration ?name'
        (alphaTransformAny oldName newName ps) (alphaTransformAny oldName newName body)) =
        FunctionDeclaration name ps body"
      using nvf' back_name 4(4,5) ips ibody
      by (simp add: Let_def del: variablesInFunction.simps)
    then show ?thesis using fwd by (simp only:)
  qed
next
  case (5 oldName newName x body)
  have nx: "newName \<noteq> x" and nbody: "newName \<notin> set (allNames body)"
    using 5(2) by auto
  show ?case
  proof (cases "oldName = x")
    case True
    then have "alphaTransformAny oldName newName (Catch x body) = Catch x body"
      by simp
    then show ?thesis using alpha_absent[OF 5(2) 5(3)] by (simp only:)
  next
    case False
    then show ?thesis using 5(1)[OF False nbody 5(3,4,5)] nx by simp
  qed
qed (auto simp: map_idI)

subsection \<open>The round trip\<close>

text \<open>
  C1, as stated, fails. Renaming \<^verbatim>\<open>this\<close> to \<^verbatim>\<open>m\<close> turns the this-expression into an
  identifier expression, and renaming back yields the identifier expression \<^verbatim>\<open>this\<close>, not the
  this-expression. The round trip also fails when the new name is bound (not free) in a
  scope holding a free occurrence of the old one: in \<^verbatim>\<open>{ var m; n; }\<close> the renamed \<^verbatim>\<open>n\<close> is
  captured and the way back stops at the block; and when the new name is \<^verbatim>\<open>arguments\<close>,
  which the way back never follows into a function.
\<close>

theorem rename_round_trip_counterexample:
  "rename (rename ThisExpression ''this'' ''m'') ''m'' ''this'' = IdentifierExpression ''this'' \<and>
   rename (rename ThisExpression ''this'' ''m'') ''m'' ''this'' \<noteq> ThisExpression \<and>
   rename (rename
       (Block [VariableStatement (VariableDeclarationList VAR
                 [VariableDeclaration (BindingIdentifier ''m'') NullTree]),
               ExpressionStatement (IdentifierExpression ''n'')]) ''n'' ''m'') ''m'' ''n''
     \<noteq> Block [VariableStatement (VariableDeclarationList VAR
                 [VariableDeclaration (BindingIdentifier ''m'') NullTree]),
               ExpressionStatement (IdentifierExpression ''n'')] \<and>
   rename (rename
       (FunctionDeclaration (Some ''f'') (FormalParameterList [])
          (Block [ExpressionStatement (IdentifierExpression ''n'')])) ''n'' ''arguments'')
       ''arguments'' ''n''
     \<noteq> FunctionDeclaration (Some ''f'') (FormalParameterList [])
          (Block [ExpressionStatement (IdentifierExpression ''n'')])"
  by (simp add: rename_def THIS_def ARGUMENTS_def)

text \<open>
  C1, amended: for every tree \<open>T\<close> and names \<open>n\<close>, \<open>m\<close> such that \<open>m\<close> does not occur in
  \<open>T\<close> at all (neither as an identifier expression nor as a binding identifier nor as a declared
  function name), \<open>m\<close> is neither \<^verbatim>\<open>this\<close> nor \<^verbatim>\<open>arguments\<close>, and \<open>n\<close> is not \<^verbatim>\<open>this\<close>:
  renaming \<open>n\<close> to \<open>m\<close> and then \<open>m\<close> to \<open>n\<close> yields \<open>T\<close>.
\<close>

theorem rename_round_trip:
  assumes "m \<notin> set (allNames T)" and "m \<noteq> THIS" and "m \<noteq> ARGUMENTS" and "n \<noteq> THIS"
  shows "rename (rename T n m) m n = T"
  using assms by (simp add: rename_def alpha_round_trip)

theorem rename_round_trip_witness:
  "rename (rename (Program [exampleFunction, ExpressionStatement (IdentifierExpression ''f'')])
       ''f'' ''g'') ''g'' ''f''
     = Program [exampleFunction, ExpressionStatement (IdentifierExpression ''f'')] \<and>
   rename (Program [exampleFunction, ExpressionStatement (IdentifierExpression ''f'')]) ''f'' ''g''
     = Program [FunctionDeclaration (Some ''g'') (FormalParameterList [BindingIdentifier ''x''])
                  (Block [ReturnStatement (IdentifierExpression ''x'')]),
                ExpressionStatement (IdentifierExpression ''g'')]"
proof -
  have a: "''g'' \<notin> set (allNames (Program [exampleFunction,
             ExpressionStatement (IdentifierExpression ''f'')]))"
    by (simp add: exampleFunction_def)
  have b: "''g'' \<noteq> THIS" "''g'' \<noteq> ARGUMENTS" "''f'' \<noteq> THIS"
    by (simp_all add: THIS_def ARGUMENTS_def)
  show ?thesis
    using rename_round_trip [OF a b]
    by (simp add: rename_def exampleFunction_def THIS_def ARGUMENTS_def)
qed

subsection \<open>Function declarations\<close>

text \<open>
  C3: on a function declaration, \<open>rename\<close> rewrites the declared name exactly when it equals
  \<open>oldName\<close>, and changes nothing inside the function (parameters and body) whenever
  \<open>oldName\<close> is \<^verbatim>\<open>arguments\<close>, \<^verbatim>\<open>this\<close> or among the names bound directly in the function.
  For \<^verbatim>\<open>function f(x) { return x; }\<close>, renaming \<^verbatim>\<open>f\<close> to \<^verbatim>\<open>g\<close> rewrites only the declared name
  (and renaming \<^verbatim>\<open>x\<close> to \<^verbatim>\<open>y\<close> changes nothing).
\<close>

theorem rename_function_declaration:
  "functionName (rename (FunctionDeclaration name ps body) oldName newName) =
     (if name = Some oldName then Some newName else name) \<and>
   (oldName = ARGUMENTS \<or> oldName = THIS \<or>
    oldName \<in> set (variablesInFunction (FunctionDeclaration name ps body)) \<longrightarrow>
      rename (FunctionDeclaration name ps body) oldName newName =
        FunctionDeclaration (if name = Some oldName then Some newName else name) ps body) \<and>
   rename exampleFunction ''f'' ''g'' =
     FunctionDeclaration (Some ''g'') (FormalParameterList [BindingIdentifier ''x''])
       (Block [ReturnStatement (IdentifierExpression ''x'')])"
  by (auto simp: rename_def functionName_def Let_def exampleFunction_def ARGUMENTS_def THIS_def)

theorem rename_function_declaration_witness:
  "''x'' \<in> set (variablesInFunction exampleFunction) \<and>
   rename exampleFunction ''x'' ''y'' = exampleFunction"
  using rename_function_declaration [of "Some ''f''" "FormalParameterList [BindingIdentifier ''x'']"
     "Block [ReturnStatement (IdentifierExpression ''x'')]" "''x''" "''y''"]
  by (simp add: exampleFunction_def)

subsection \<open>Rebinding scopes\<close>

text \<open>
  C4: renaming stops at rebinding scopes. A block in which \<open>oldName\<close> is among the names bound
  directly in the block is returned unchanged, and so is a catch clause whose binding is a
  plain name (not a pattern) equal to \<open>oldName\<close>.
\<close>

theorem rename_stops_at_rebinding:
  "(oldName \<in> set (variablesInBlock (Block statements)) \<longrightarrow>
      rename (Block statements) oldName newName = Block statements) \<and>
   rename (Catch oldName body) oldName newName = Catch oldName body"
  by (auto simp: rename_def)

theorem rename_stops_at_rebinding_witness:
  "rename (Block [VariableStatement (VariableDeclarationList LET
                    [VariableDeclaration (BindingIdentifier ''x'') (LiteralExpression ''1'')]),
                  ExpressionStatement (IdentifierExpression ''x'')]) ''x'' ''y''
     = Block [VariableStatement (VariableDeclarationList LET
                    [VariableDeclaration (BindingIdentifier ''x'') (LiteralExpression ''1'')]),
              ExpressionStatement (IdentifierExpression ''x'')] \<and>
   rename (Catch ''e'' (Block [ExpressionStatement (IdentifierExpression ''e'')])) ''e'' ''y''
     = Catch ''e'' (Block [ExpressionStatement (IdentifierExpression ''e'')])"
proof -
  have a: "''x'' \<in> set (variablesInBlock (Block [VariableStatement (VariableDeclarationList LET
                    [VariableDeclaration (BindingIdentifier ''x'') (LiteralExpression ''1'')]),
                  ExpressionStatement (IdentifierExpression ''x'')]))"
    by simp
  show ?thesis
    using rename_stops_at_rebinding [of "''x''" _ "''y''"
        "Block [ExpressionStatement (IdentifierExpression ''e'')]"]
      rename_stops_at_rebinding [of "''e''" "[]" "''y''"
        "Block [ExpressionStatement (IdentifierExpression ''e'')]"] a
    by simp
qed

section \<open>Properties of the for-in pass\<close>

lemmas factory_defs =
  createIdentifierExpression_def createVariableDeclaration_def createVariableDeclarationList_def
  createVariableStatement_def createEmptyArrayLiteralExpression_def createForInStatement_def
  createForStatement_def createMemberExpression_def createMemberLookupExpression_def
  createArgumentList_def createCallStatement_def createOperatorToken_def createBinaryOperator_def
  createUnaryExpression_def createPostfixExpression_def createParenExpression_def
  createAssignmentStatement_def createIfStatement_def createContinueStatement_def
  createNumberLiteral_def createBlock_def

lemma counterGenerator_values:
  "counterGenerator 0 = (''$0'', 1)" "counterGenerator 1 = (''$1'', 2)"
  "counterGenerator 2 = (''$2'', 3)" "counterGenerator 3 = (''$3'', 4)"
  by (simp_all add: counterGenerator_def)

text \<open>
  C2, as stated, fails: a for-in statement whose loop-variable position is a plain identifier
  does not yield a block when the transformation of its body throws (here the body is
  \<^verbatim>\<open>for (a.b in o) {}\<close>, a for-in statement the pass rejects), and a declaration list without
  declarations makes the read of its first declaration fail.
\<close>

theorem transformForInStatement_output_counterexample:
  "transformForInStatement counterGenerator
     (ForInStatement (IdentifierExpression ''k'') (IdentifierExpression ''o'')
        (ForInStatement (MemberExpression (IdentifierExpression ''a'') ''b'')
           (IdentifierExpression ''o'') (Block []))) (0::nat)
     = Inl InvalidLeftHandSide \<and>
   transformForInStatement counterGenerator
     (ForInStatement (VariableDeclarationList VAR []) (IdentifierExpression ''o'') (Block []))
     (0::nat)
     = Inl TypeError"
  by (simp add: counterGenerator_def factory_defs)

text \<open>
  C2, amended: for every for-in statement whose loop-variable position is a plain identifier
  reference \<open>k\<close>, or a variable declaration list whose first declaration binds a plain
  identifier \<open>k\<close>, and whose body the pass transforms without failure into \<open>body'\<close>:
  \<open>transformForInStatement\<close> takes four identifiers from the generator after the body has
  been transformed (keys, collection, enumeration variable, index, in this order) and returns
  the block of (1) \<^verbatim>\<open>var keys = []\<close>, (2) \<^verbatim>\<open>var collection = \<close> the original collection
  expression, which the pass places there and nowhere else, (3) a for-in loop over the collection variable that pushes each enumerated key
  onto keys, (4) a for loop from index 0 while index < keys.length, incrementing by one,
  whose body is the assignment (or the declaration, with the original declaration type) of
  \<open>k\<close> from keys[index], then \<^verbatim>\<open>if (!(k in collection)) continue;\<close>, then the statements of
  \<open>body'\<close> inlined when \<open>body'\<close> is a block, and \<open>body'\<close> itself otherwise.
\<close>

theorem transformForInStatement_output:
  assumes body: "forInTransformAny gen body s = Inr (body', s0)"
    and gens: "gen s0 = (keys, s1)" "gen s1 = (collectionName, s2)" "gen s2 = (p, s3)"
      "gen s3 = (i, s4)"
    and init: "initializer = IdentifierExpression k \<and>
        assign = ExpressionStatement (BinaryOperator (IdentifierExpression k) EQUAL
          (MemberLookupExpression (IdentifierExpression keys) (IdentifierExpression i))) \<or>
      initializer = VariableDeclarationList ty (VariableDeclaration (BindingIdentifier k) e # ds) \<and>
        assign = VariableStatement (VariableDeclarationList ty [VariableDeclaration
          (BindingIdentifier k)
          (MemberLookupExpression (IdentifierExpression keys) (IdentifierExpression i))])"
  shows "transformForInStatement gen (ForInStatement initializer collection body) s =
    Inr (Block
      [VariableStatement (VariableDeclarationList VAR
         [VariableDeclaration (BindingIdentifier keys) (ArrayLiteralExpression [])]),
       VariableStatement (VariableDeclarationList VAR
         [VariableDeclaration (BindingIdentifier collectionName) collection]),
       ForInStatement
         (VariableDeclarationList VAR [VariableDeclaration (BindingIdentifier p) NullTree])
         (IdentifierExpression collectionName)
         (ExpressionStatement (CallExpression
            (MemberExpression (IdentifierExpression keys) ''push'')
            (ArgumentList [IdentifierExpression p]))),
       ForStatement
         (VariableDeclarationList VAR
            [VariableDeclaration (BindingIdentifier i) (LiteralExpression ''0'')])
         (BinaryOperator (IdentifierExpression i) OPEN_ANGLE
            (MemberExpression (IdentifierExpression keys) ''length''))
         (PostfixExpression (IdentifierExpression i) PLUS_PLUS)
         (Block
            (assign #
             IfStatement
               (UnaryExpression BANG (ParenExpression
                  (BinaryOperator (IdentifierExpression k) IN
                     (IdentifierExpression collectionName))))
               (ContinueStatement None) NullTree #
             (case body' of Block statements \<Rightarrow> statements | _ \<Rightarrow> [body'])))],
      s4)"
  using init
proof
  assume "initializer = IdentifierExpression k \<and>
        assign = ExpressionStatement (BinaryOperator (IdentifierExpression k) EQUAL
          (MemberLookupExpression (IdentifierExpression keys) (IdentifierExpression i)))"
  then show ?thesis
    using body gens by (simp add: factory_defs PUSH_def LENGTH_def)
next
  assume "initializer = VariableDeclarationList ty (VariableDeclaration (BindingIdentifier k) e # ds) \<and>
        assign = VariableStatement (VariableDeclarationList ty [VariableDeclaration
          (BindingIdentifier k)
          (MemberLookupExpression (IdentifierExpression keys) (IdentifierExpression i))])"
  then show ?thesis
    using body gens by (simp add: factory_defs PUSH_def LENGTH_def)
qed

theorem transformForInStatement_output_witness:
  "transformForInStatement counterGenerator
     (ForInStatement
        (VariableDeclarationList VAR [VariableDeclaration (BindingIdentifier ''k'') NullTree])
        (IdentifierExpression ''o'')
        (Block [ExpressionStatement (IdentifierExpression ''k'')])) (0::nat) =
    Inr (Block
      [VariableStatement (VariableDeclarationList VAR
         [VariableDeclaration (BindingIdentifier ''$0'') (ArrayLiteralExpression [])]),
       VariableStatement (VariableDeclarationList VAR
         [VariableDeclaration (BindingIdentifier ''$1'') (IdentifierExpression ''o'')]),
       ForInStatement
         (VariableDeclarationList VAR [VariableDeclaration (BindingIdentifier ''$2'') NullTree])
         (IdentifierExpression ''$1'')
         (ExpressionStatement (CallExpression
            (MemberExpression (IdentifierExpression ''$0'') ''push'')
            (ArgumentList [IdentifierExpression ''$2'']))),
       ForStatement
         (VariableDeclarationList VAR
            [VariableDeclaration (BindingIdentifier ''$3'') (LiteralExpression ''0'')])
         (BinaryOperator (IdentifierExpression ''$3'') OPEN_ANGLE
            (MemberExpression (IdentifierExpression ''$0'') ''length''))
         (PostfixExpression (IdentifierExpression ''$3'') PLUS_PLUS)
         (Block
            [VariableStatement (VariableDeclarationList VAR
               [VariableDeclaration (BindingIdentifier ''k'')
                  (MemberLookupExpression (IdentifierExpression ''$0'')
                     (IdentifierExpression ''$3''))]),
             IfStatement
               (UnaryExpression BANG (ParenExpression
                  (BinaryOperator (IdentifierExpression ''k'') IN
                     (IdentifierExpression ''$1''))))
               (ContinueStatement None) NullTree,
             ExpressionStatement (IdentifierExpression ''k'')])],
      4)"
proof -
  have b: "forInTransformAny counterGenerator
      (Block [ExpressionStatement (IdentifierExpression ''k'')]) (0::nat) =
      Inr (Block [ExpressionStatement (IdentifierExpression ''k'')], 0)"
    by simp
  show ?thesis
    using transformForInStatement_output [OF b counterGenerator_values,
        where initializer = "VariableDeclarationList VAR
          [VariableDeclaration (BindingIdentifier ''k'') NullTree]"
        and k = "''k''" and ty = VAR and e = NullTree and ds = "[]"
        and assign = "VariableStatement (VariableDeclarationList VAR [VariableDeclaration
          (BindingIdentifier ''k'')
          (MemberLookupExpression (IdentifierExpression ''$0'') (IdentifierExpression ''$3''))])"
        and collection = "IdentifierExpression ''o''"]
    by simp
qed

text \<open>
  C8, as stated, fails: a declaration list with more than one declaration is accepted; the
  pass reads its first declaration and ignores the others.
\<close>

theorem transformForInStatement_invalid_lhs_counterexample:
  "transformForInStatement counterGenerator
     (ForInStatement
        (VariableDeclarationList VAR
           [VariableDeclaration (BindingIdentifier ''a'') NullTree,
            VariableDeclaration (BindingIdentifier ''b'') NullTree])
        (IdentifierExpression ''o'') (Block [])) (0::nat) =
    Inr (Block
      [VariableStatement (VariableDeclarationList VAR
         [VariableDeclaration (BindingIdentifier ''$0'') (ArrayLiteralExpression [])]),
       VariableStatement (VariableDeclarationList VAR
         [VariableDeclaration (BindingIdentifier ''$1'') (IdentifierExpression ''o'')]),
       ForInStatement
         (VariableDeclarationList VAR [VariableDeclaration (BindingIdentifier ''$2'') NullTree])
         (IdentifierExpression ''$1'')
         (ExpressionStatement (CallExpression
            (MemberExpression (IdentifierExpression ''$0'') ''push'')
            (ArgumentList [IdentifierExpression ''$2'']))),
       ForStatement
         (VariableDeclarationList VAR
            [VariableDeclaration (BindingIdentifier ''$3'') (LiteralExpression ''0'')])
         (BinaryOperator (IdentifierExpression ''$3'') OPEN_ANGLE
            (MemberExpression (IdentifierExpression ''$0'') ''length''))
         (PostfixExpression (IdentifierExpression ''$3'') PLUS_PLUS)
         (Block
            [VariableStatement (VariableDeclarationList VAR
               [VariableDeclaration (BindingIdentifier ''a'')
                  (MemberLookupExpression (IdentifierExpression ''$0'')
                     (IdentifierExpression ''$3''))]),
             IfStatement
               (UnaryExpression BANG (ParenExpression
                  (BinaryOperator (IdentifierExpression ''a'') IN
                     (IdentifierExpression ''$1''))))
               (ContinueStatement None) NullTree])],
      4)"
  by (simp add: counterGenerator_def factory_defs PUSH_def LENGTH_def)

text \<open>
  C8, amended: for every for-in statement whose loop-variable position is neither a variable
  declaration list (of any length) nor a plain identifier reference,
  \<open>transformForInStatement\<close> produces no output: it ends with an error, and with the error
  \<^verbatim>\<open>Invalid left hand side of for in loop\<close> whenever the transformation of the body, which
  comes first, succeeds.
\<close>

theorem transformForInStatement_invalid_lhs:
  assumes "\<And>ty ds. initializer \<noteq> VariableDeclarationList ty ds"
    and "\<And>k. initializer \<noteq> IdentifierExpression k"
  shows "(\<exists>e. transformForInStatement gen (ForInStatement initializer collection body) s = Inl e) \<and>
    (\<forall>body' s0. forInTransformAny gen body s = Inr (body', s0) \<longrightarrow>
       transformForInStatement gen (ForInStatement initializer collection body) s =
         Inl InvalidLeftHandSide)"
proof -
  have k: "\<And>lookup. originalKeyAssignment initializer lookup = Inl InvalidLeftHandSide"
    using assms by (cases initializer) auto
  show ?thesis
    by (cases "forInTransformAny gen body s")
       (auto simp: k Let_def split: prod.splits)
qed

theorem transformForInStatement_invalid_lhs_witness:
  "transformForInStatement counterGenerator
     (ForInStatement (MemberExpression (IdentifierExpression ''a'') ''b'')
        (IdentifierExpression ''o'') (Block [])) (0::nat) = Inl InvalidLeftHandSide"
proof -
  have a: "\<And>ty ds. MemberExpression (IdentifierExpression ''a'') ''b'' \<noteq>
      VariableDeclarationList ty ds"
    by simp
  have b: "\<And>k. MemberExpression (IdentifierExpression ''a'') ''b'' \<noteq> IdentifierExpression k"
    by simp
  have c: "forInTransformAny counterGenerator (Block []) (0::nat) = Inr (Block [], 0)"
    by simp
  show ?thesis
    using transformForInStatement_invalid_lhs [OF a b, of counterGenerator
        "IdentifierExpression ''o''" "Block []" "0::nat"] c
    by blast
qed



section \<open>Properties of the runtime inliner\<close>

declare register.simps [simp del]

lemma placeholders_toObjectSource: "placeholders toObjectSource = []"
  by (simp add: toObjectSource_def)

lemma replacePlaceholders_plain:
  "placeholders str = [] \<Longrightarrow> replacePlaceholders parse gen str st = (Inr str, st)"
  by (induction str rule: placeholders.induct) (auto split: if_splits)

lemma register_registered:
  "name \<in> registered st \<Longrightarrow> register parse gen name src st = (None, st)"
  by (simp add: register.simps registered_def)

lemma register_plain:
  assumes "name \<notin> registered st" and "placeholders str = []"
  shows "register parse gen name (SourceText str) st =
    (None, st\<lparr>identifierGenerator := snd (gen (identifierGenerator st)),
              registry := AList.update name
                \<lparr>expression = parse str name, uid = fst (gen (identifierGenerator st)),
                 inserted = False\<rparr> (registry st)\<rparr>)"
  using assms
  by (simp add: register.simps registered_def replacePlaceholders_plain split: prod.splits)

lemma register_not_text:
  assumes "name \<notin> registered st" and "\<And>str. src \<noteq> SourceText str"
  shows "register parse gen name src st = (Some TypeError, st)"
  using assms by (cases src) (auto simp: register.simps registered_def)

lemma sharedValue_cases:
  "inShared q \<Longrightarrow> sharedValue q = SourceText toObjectSource \<and> q = ''toObject'' \<or>
     sharedValue q = NotAString \<and> q \<noteq> ''toObject''"
  by (auto simp: inShared_def sharedValue_def shared_def)

lemma registered_update:
  "registered (st\<lparr>identifierGenerator := g, registry := AList.update name v (registry st)\<rparr>) =
     insert name (registered st)"
  by (auto simp: registered_def update_keys image_iff)

lemma distinct_update_keys:
  "distinct (map fst al) \<Longrightarrow> distinct (map fst (AList.update k v al))"
  by (rule distinct_update)

lemma step_props:
  assumes "(if inShared name then register parse gen name (sharedValue name) st else (None, st))
      = (err, st1)"
  shows "registered st \<subseteq> registered st1 \<and>
    registered st1 \<subseteq> registered st \<union> set (map fst shared) \<and>
    (err = None \<or> err = Some TypeError) \<and>
    (distinct (map fst (registry st)) \<longrightarrow> distinct (map fst (registry st1))) \<and>
    (name \<notin> set (map fst shared) \<longrightarrow> st1 = st)"
proof (cases "inShared name \<and> name \<notin> registered st")
  case False
  then show ?thesis using assms by (auto simp: register_registered split: if_splits)
next
  case True
  then have r: "register parse gen name (sharedValue name) st = (err, st1)"
    using assms by simp
  consider (src_text) "sharedValue name = SourceText toObjectSource"
    | (other) "sharedValue name = NotAString"
    using True sharedValue_cases [of name] by blast
  then show ?thesis
  proof cases
    case src_text
    have "register parse gen name (SourceText toObjectSource) st =
      (None, st\<lparr>identifierGenerator := snd (gen (identifierGenerator st)),
              registry := AList.update name
                \<lparr>expression = parse toObjectSource name,
                 uid = fst (gen (identifierGenerator st)),
                 inserted = False\<rparr> (registry st)\<rparr>)"
      using True by (intro register_plain placeholders_toObjectSource) simp
    moreover have "name = ''toObject''"
      using src_text True sharedValue_cases [of name] by auto
    ultimately show ?thesis
      using r src_text True
      by (auto simp: registered_update distinct_update_keys shared_def)
  next
    case other
    then have "register parse gen name (sharedValue name) st = (Some TypeError, st)"
      using True by (intro register_not_text) auto
    then show ?thesis using r by auto
  qed
qed

lemma getAsString_Inl:
  "getAsString st name = Inl e \<longleftrightarrow> e = TypeError \<and> name \<notin> registered st"
  by (force simp: getAsString_def registered_def map_of_eq_None_iff split: option.splits
      dest: map_of_SomeD)

lemma replacePlaceholders_props:
  "case replacePlaceholders parse gen str st of
     (r, st') \<Rightarrow>
       registered st \<subseteq> registered st' \<and>
       registered st' \<subseteq> registered st \<union> set (map fst shared) \<and>
       (\<forall>e. r = Inl e \<longrightarrow> e = TypeError) \<and>
       (distinct (map fst (registry st)) \<longrightarrow> distinct (map fst (registry st'))) \<and>
       (\<forall>p \<in> set (placeholders str).
          p \<notin> set (map fst shared) \<and> p \<notin> registered st \<longrightarrow> r = Inl TypeError)"
proof (induction str arbitrary: st rule: placeholders.induct)
  case 1
  show ?case by simp
next
  case (2 c cs)
  let ?name = "takeWhile isNameChar cs"
  let ?rest = "dropWhile isNameChar cs"
  show ?case
  proof (cases "c = CHR ''%'' \<and> ?name \<noteq> []")
    case False
    then have eq: "replacePlaceholders parse gen (c # cs) st =
        (case replacePlaceholders parse gen cs st of
           (Inl e, st1) \<Rightarrow> (Inl e, st1)
         | (Inr out, st1) \<Rightarrow> (Inr (c # out), st1))"
      by auto
    have pl: "placeholders (c # cs) = placeholders cs"
      using False by auto
    show ?thesis
      using "2.IH"(2) [OF False, of st] unfolding eq pl
      by (auto split: prod.splits sum.splits)
  next
    case True
    obtain err st1 where step:
      "(if inShared ?name then register parse gen ?name (sharedValue ?name) st else (None, st))
         = (err, st1)"
      by (cases "if inShared ?name then register parse gen ?name (sharedValue ?name) st
                 else (None, st)") auto
    note sp = step_props [OF step]
    have pl: "placeholders (c # cs) = ?name # placeholders ?rest"
      using True by auto
    have eq: "replacePlaceholders parse gen (c # cs) st =
        (case err of
           Some e \<Rightarrow> (Inl e, st1)
         | None \<Rightarrow>
             (case getAsString st1 ?name of
                Inl e \<Rightarrow> (Inl e, st1)
              | Inr u \<Rightarrow>
                  (case replacePlaceholders parse gen ?rest st1 of
                     (Inl e, st2) \<Rightarrow> (Inl e, st2)
                   | (Inr out, st2) \<Rightarrow> (Inr (u @ out), st2))))"
      using True step by (simp add: Let_def)
    show ?thesis
    proof (cases err)
      case (Some e)
      then show ?thesis using sp unfolding eq by auto
    next
      case None
      show ?thesis
      proof (cases "getAsString st1 ?name")
        case (Inl e)
        then show ?thesis using sp None getAsString_Inl [of st1 ?name e] unfolding eq by auto
      next
        case (Inr u)
        then have reg: "?name \<in> registered st1"
          using getAsString_Inl [of st1 ?name TypeError]
          by (cases "?name \<in> registered st1") auto
        have nm: "?name \<notin> set (map fst shared) \<longrightarrow> ?name \<in> registered st"
          using reg sp by auto
        obtain r2 st2 where r2: "replacePlaceholders parse gen ?rest st1 = (r2, st2)"
          by (cases "replacePlaceholders parse gen ?rest st1") auto
        have ih: "registered st1 \<subseteq> registered st2 \<and>
            registered st2 \<subseteq> registered st1 \<union> set (map fst shared) \<and>
            (\<forall>e. r2 = Inl e \<longrightarrow> e = TypeError) \<and>
            (distinct (map fst (registry st1)) \<longrightarrow> distinct (map fst (registry st2))) \<and>
            (\<forall>p \<in> set (placeholders ?rest).
               p \<notin> set (map fst shared) \<and> p \<notin> registered st1 \<longrightarrow> r2 = Inl TypeError)"
          using "2.IH"(1) [OF True, of st1] r2 by simp
        have res: "replacePlaceholders parse gen (c # cs) st =
            (case r2 of Inl e \<Rightarrow> (Inl e, st2) | Inr out \<Rightarrow> (Inr (u @ out), st2))"
          unfolding eq using None Inr r2 by (simp split: sum.splits)
        have a: "registered st \<subseteq> registered st2" using sp ih by blast
        have b: "registered st2 \<subseteq> registered st \<union> set (map fst shared)" using sp ih by blast
        have d: "distinct (map fst (registry st)) \<longrightarrow> distinct (map fst (registry st2))"
          using sp ih by blast
        have e: "\<forall>p \<in> set (placeholders (c # cs)).
            p \<notin> set (map fst shared) \<and> p \<notin> registered st \<longrightarrow> r2 = Inl TypeError"
        proof (intro ballI impI)
          fix p assume p: "p \<in> set (placeholders (c # cs))"
            and q: "p \<notin> set (map fst shared) \<and> p \<notin> registered st"
          then have "p \<noteq> ?name" using nm by auto
          then have "p \<in> set (placeholders ?rest)" using p pl by simp
          moreover have "p \<notin> registered st1" using q sp by auto
          ultimately show "r2 = Inl TypeError" using ih q by blast
        qed
        show ?thesis
          unfolding res using a b d e ih by (cases r2) auto
      qed
    qed
  qed
qed

lemma register_props:
  "case register parse gen name src st of
     (err, st') \<Rightarrow>
       (err = None \<longrightarrow> name \<in> registered st') \<and>
       (err = None \<or> err = Some TypeError) \<and>
       (distinct (map fst (registry st)) \<longrightarrow> distinct (map fst (registry st'))) \<and>
       registered st \<subseteq> registered st' \<and>
       registered st' \<subseteq> registered st \<union> set (map fst shared) \<union> (if err = None then {name} else {})"
proof (cases "name \<in> registered st")
  case True
  then show ?thesis by (auto simp: register_registered)
next
  case False
  show ?thesis
  proof (cases src)
    case (SourceText str)
    obtain r st1 where r: "replacePlaceholders parse gen str st = (r, st1)"
      by (cases "replacePlaceholders parse gen str st") auto
    note rp = replacePlaceholders_props [where parse = parse and gen = gen and str = str and st = st,
      unfolded r prod.case]
    show ?thesis
    proof (cases r)
      case (Inl e)
      then have "register parse gen name src st = (Some e, st1)"
        using False SourceText r by (simp add: register.simps registered_def)
      then show ?thesis using rp Inl by auto
    next
      case (Inr out)
      then have "register parse gen name src st =
          (None, st1\<lparr>identifierGenerator := snd (gen (identifierGenerator st1)),
             registry := AList.update name
               \<lparr>expression = parse out name, uid = fst (gen (identifierGenerator st1)),
                inserted = False\<rparr> (registry st1)\<rparr>)"
        using False SourceText r
        by (simp add: register.simps registered_def split: prod.splits)
      then show ?thesis
        using rp by (auto simp: registered_update distinct_update_keys)
    qed
  next
    case NotAString
    then show ?thesis using False register_not_text [of name st src parse gen] by auto
  next
    case Undefined
    then show ?thesis using False register_not_text [of name st src parse gen] by auto
  qed
qed

lemma register_twice_plain:
  assumes "placeholders str = []"
  shows "snd (register parse gen name (SourceText str)
           (snd (register parse gen name (SourceText str) (newRuntimeInliner g)))) =
    \<lparr>identifierGenerator = snd (gen g),
     registry = [(name, \<lparr>expression = parse str name, uid = fst (gen g), inserted = False\<rparr>)]\<rparr>"
proof -
  have n: "name \<notin> registered (newRuntimeInliner g)"
    by (simp add: registered_def newRuntimeInliner_def)
  have 1: "register parse gen name (SourceText str) (newRuntimeInliner g) =
      (None, \<lparr>identifierGenerator = snd (gen g),
        registry = [(name, \<lparr>expression = parse str name, uid = fst (gen g), inserted = False\<rparr>)]\<rparr>)"
    using register_plain [OF n assms, where parse = parse and gen = gen]
    by (simp add: newRuntimeInliner_def)
  have "name \<in> registered \<lparr>identifierGenerator = snd (gen g),
        registry = [(name, \<lparr>expression = parse str name, uid = fst (gen g), inserted = False\<rparr>)]\<rparr>"
    by (simp add: registered_def)
  then show ?thesis using 1 by (simp add: register_registered)
qed

text \<open>
  C5: registration is idempotent and the registry holds at most one entry per name. Calling
  \<open>register\<close> with a name that has an entry returns without error and leaves the state as it
  is (no new entry, no identifier taken from the generator), whatever the source; hence a
  second call after a completed one changes nothing. Names in the registry stay distinct.
  From a new inliner, registering a text without placeholders twice under one name leaves
  exactly one entry, takes one identifier from the generator, and finalization prepends one
  variable statement with exactly one declaration.
\<close>

theorem register_idempotent:
  "(name \<in> registered st \<longrightarrow> register parse gen name src st = (None, st)) \<and>
   (\<forall>st1. register parse gen name src st = (None, st1) \<longrightarrow>
      register parse gen name src' st1 = (None, st1)) \<and>
   (distinct (map fst (registry st)) \<longrightarrow>
      distinct (map fst (registry (snd (register parse gen name src st))))) \<and>
   (placeholders str = [] \<longrightarrow>
      (let st1 = snd (register parse gen name (SourceText str) (newRuntimeInliner g));
           st2 = snd (register parse gen name (SourceText str) st1)
       in registry st2 =
            [(name, \<lparr>expression = parse str name, uid = fst (gen g), inserted = False\<rparr>)] \<and>
          identifierGenerator st2 = snd (gen g) \<and>
          fst (transformProgram st2 (Program es)) =
            Program (VariableStatement (VariableDeclarationList VAR
                       [VariableDeclaration (BindingIdentifier (fst (gen g))) (parse str name)])
                     # es)))"
proof (intro conjI impI allI)
  show "register parse gen name src st = (None, st)" if "name \<in> registered st"
    using that by (rule register_registered)
next
  fix st1 assume "register parse gen name src st = (None, st1)"
  then have "name \<in> registered st1"
    using register_props [where parse = parse and gen = gen and name = name and src = src and st = st] by simp
  then show "register parse gen name src' st1 = (None, st1)"
    by (rule register_registered)
next
  assume "distinct (map fst (registry st))"
  then show "distinct (map fst (registry (snd (register parse gen name src st))))"
    using register_props [where parse = parse and gen = gen and name = name and src = src and st = st] by (auto split: prod.splits)
next
  assume "placeholders str = []"
  then show "let st1 = snd (register parse gen name (SourceText str) (newRuntimeInliner g));
           st2 = snd (register parse gen name (SourceText str) st1)
       in registry st2 =
            [(name, \<lparr>expression = parse str name, uid = fst (gen g), inserted = False\<rparr>)] \<and>
          identifierGenerator st2 = snd (gen g) \<and>
          fst (transformProgram st2 (Program es)) =
            Program (VariableStatement (VariableDeclarationList VAR
                       [VariableDeclaration (BindingIdentifier (fst (gen g))) (parse str name)])
                     # es)"
    by (simp add: Let_def register_twice_plain transformProgram_def
        createVariableStatementFromList_def createVariableDeclarationListFromDeclarations_def
        createVariableDeclaration_def)
qed

theorem register_idempotent_witness:
  "register literalParser counterGenerator ''toObject'' (SourceText ''function(v) { return v; }'')
     \<lparr>identifierGenerator = (1::nat),
      registry = [(''toObject'',
        \<lparr>expression = LiteralExpression ''function(v) { return v; }'', uid = ''$0'',
         inserted = False\<rparr>)]\<rparr> =
   (None,
    \<lparr>identifierGenerator = 1,
      registry = [(''toObject'',
        \<lparr>expression = LiteralExpression ''function(v) { return v; }'', uid = ''$0'',
         inserted = False\<rparr>)]\<rparr>) \<and>
   snd (register literalParser counterGenerator ''toObject''
          (SourceText ''function(v) { return v; }'')
          (snd (register literalParser counterGenerator ''toObject''
                  (SourceText ''function(v) { return v; }'') (newRuntimeInliner (0::nat))))) =
    \<lparr>identifierGenerator = 1,
      registry = [(''toObject'',
        \<lparr>expression = LiteralExpression ''function(v) { return v; }'', uid = ''$0'',
         inserted = False\<rparr>)]\<rparr>"
proof -
  let ?st = "\<lparr>identifierGenerator = (1::nat),
      registry = [(''toObject'',
        \<lparr>expression = LiteralExpression ''function(v) { return v; }'', uid = ''$0'',
         inserted = False\<rparr>)]\<rparr>"
  have a: "''toObject'' \<in> registered ?st"
    by (simp add: registered_def)
  have b: "placeholders ''function(v) { return v; }'' = []"
    by simp
  have c: "counterGenerator 0 = (''$0'', 1)"
    by (simp add: counterGenerator_def)
  show ?thesis
    using register_idempotent [of "''toObject''" ?st literalParser counterGenerator
        "SourceText ''function(v) { return v; }''" Undefined "''function(v) { return v; }''"
        "0::nat" "[]"] a b c
    by (simp add: Let_def literalParser_def del: placeholders.simps)
qed

lemma map_of_registered:
  "name \<in> registered st \<Longrightarrow> \<exists>item. map_of (registry st) name = Some item"
  by (cases "map_of (registry st) name")
     (auto simp: registered_def map_of_eq_None_iff)

text \<open>
  C6, amended: for every name not yet registered, \<open>get\<close> registers the helper with the
  predefined shared definition whenever \<^verbatim>\<open>name in shared\<close> holds, also when a source text was
  given, and with the given source text only otherwise. When the source so chosen is missing
  or empty the call fails with the assertion and leaves the state as it is; when the
  registration throws, \<open>get\<close> throws the same error; and whenever the registration completes,
  the value returned is the identifier expression of the unique identifier of the entry of
  that name. In particular, for \<^verbatim>\<open>toObject\<close> the entry holds the parsed shared text whatever
  source was given, and for a name that is not in \<^verbatim>\<open>shared\<close> and a non-empty text without
  placeholders the entry holds the parsed text.
\<close>

theorem get_unregistered:
  assumes "name \<notin> registered st"
  shows
    "(let src = (if inShared name then sharedValue name else opt_source)
      in (\<not> truthy src \<longrightarrow> get parse gen name opt_source st = (Inl AssertionFailed, st)) \<and>
         (truthy src \<longrightarrow>
            (case register parse gen name src st of
               (Some e, st1) \<Rightarrow> get parse gen name opt_source st = (Inl e, st1)
             | (None, st1) \<Rightarrow>
                 (\<exists>item. map_of (registry st1) name = Some item \<and>
                    get parse gen name opt_source st =
                      (Inr (IdentifierExpression (uid item)), st1))))) \<and>
     (name = ''toObject'' \<longrightarrow>
        get parse gen name opt_source st =
          (Inr (IdentifierExpression (fst (gen (identifierGenerator st)))),
           st\<lparr>identifierGenerator := snd (gen (identifierGenerator st)),
              registry := AList.update name
                \<lparr>expression = parse toObjectSource name,
                 uid = fst (gen (identifierGenerator st)), inserted = False\<rparr>
                (registry st)\<rparr>)) \<and>
     (\<not> inShared name \<and> opt_source = SourceText str \<and> str \<noteq> [] \<and> placeholders str = [] \<longrightarrow>
        get parse gen name opt_source st =
          (Inr (IdentifierExpression (fst (gen (identifierGenerator st)))),
           st\<lparr>identifierGenerator := snd (gen (identifierGenerator st)),
              registry := AList.update name
                \<lparr>expression = parse str name,
                 uid = fst (gen (identifierGenerator st)), inserted = False\<rparr>
                (registry st)\<rparr>))"
proof (intro conjI)
  let ?src = "if inShared name then sharedValue name else opt_source"
  have n: "name \<notin> set (map fst (registry st))"
    using assms by (simp add: registered_def)
  show "let src = ?src
      in (\<not> truthy src \<longrightarrow> get parse gen name opt_source st = (Inl AssertionFailed, st)) \<and>
         (truthy src \<longrightarrow>
            (case register parse gen name src st of
               (Some e, st1) \<Rightarrow> get parse gen name opt_source st = (Inl e, st1)
             | (None, st1) \<Rightarrow>
                 (\<exists>item. map_of (registry st1) name = Some item \<and>
                    get parse gen name opt_source st =
                      (Inr (IdentifierExpression (uid item)), st1))))"
  proof -
    obtain err st1 where r: "register parse gen name ?src st = (err, st1)"
      by (cases "register parse gen name ?src st") auto
    have "err = None \<Longrightarrow> \<exists>item. map_of (registry st1) name = Some item"
      using register_props [where parse = parse and gen = gen and name = name and src = ?src
          and st = st] r map_of_registered [of name st1]
      by simp
    then show ?thesis
      using n r unfolding Let_def get_def assert_def
      by (cases err)
         (auto simp: getAsIdentifierExpression_def createIdentifierExpression_def)
  qed
next
  show "name = ''toObject'' \<longrightarrow>
        get parse gen name opt_source st =
          (Inr (IdentifierExpression (fst (gen (identifierGenerator st)))),
           st\<lparr>identifierGenerator := snd (gen (identifierGenerator st)),
              registry := AList.update name
                \<lparr>expression = parse toObjectSource name,
                 uid = fst (gen (identifierGenerator st)), inserted = False\<rparr>
                (registry st)\<rparr>)"
  proof
    assume t: "name = ''toObject''"
    then have s: "inShared name" "sharedValue name = SourceText toObjectSource"
      by (simp_all add: inShared_def sharedValue_def shared_def)
    have tr: "truthy (SourceText toObjectSource)"
      by (simp add: toObjectSource_def)
    show "get parse gen name opt_source st =
          (Inr (IdentifierExpression (fst (gen (identifierGenerator st)))),
           st\<lparr>identifierGenerator := snd (gen (identifierGenerator st)),
              registry := AList.update name
                \<lparr>expression = parse toObjectSource name,
                 uid = fst (gen (identifierGenerator st)), inserted = False\<rparr>
                (registry st)\<rparr>)"
      using assms s tr
        register_plain [OF assms placeholders_toObjectSource, where parse = parse and gen = gen]
      unfolding get_def assert_def registered_def
      by (simp add: getAsIdentifierExpression_def createIdentifierExpression_def update_conv'
          del: truthy.simps)
  qed
next
  show "\<not> inShared name \<and> opt_source = SourceText str \<and> str \<noteq> [] \<and> placeholders str = [] \<longrightarrow>
        get parse gen name opt_source st =
          (Inr (IdentifierExpression (fst (gen (identifierGenerator st)))),
           st\<lparr>identifierGenerator := snd (gen (identifierGenerator st)),
              registry := AList.update name
                \<lparr>expression = parse str name,
                 uid = fst (gen (identifierGenerator st)), inserted = False\<rparr>
                (registry st)\<rparr>)"
  proof
    assume a: "\<not> inShared name \<and> opt_source = SourceText str \<and> str \<noteq> [] \<and> placeholders str = []"
    then have p: "placeholders str = []" by simp
    show "get parse gen name opt_source st =
          (Inr (IdentifierExpression (fst (gen (identifierGenerator st)))),
           st\<lparr>identifierGenerator := snd (gen (identifierGenerator st)),
              registry := AList.update name
                \<lparr>expression = parse str name,
                 uid = fst (gen (identifierGenerator st)), inserted = False\<rparr>
                (registry st)\<rparr>)"
      using assms a register_plain [OF assms p, where parse = parse and gen = gen]
      unfolding get_def assert_def registered_def
      by (simp add: getAsIdentifierExpression_def createIdentifierExpression_def update_conv')
  qed
qed

text \<open>
  C6, as stated, fails: for a name not yet registered that is a property of \<^verbatim>\<open>shared\<close>, \<open>get\<close>
  replaces the source it was given by the shared definition. Called with \<^verbatim>\<open>toObject\<close> and the
  text \<^verbatim>\<open>function() {}\<close>, it registers the shared text of \<^verbatim>\<open>toObject\<close>.
\<close>

theorem get_unregistered_counterexample:
  "get literalParser counterGenerator ''toObject'' (SourceText ''function() {}'')
     (newRuntimeInliner (0::nat)) =
   (Inr (IdentifierExpression ''$0''),
    \<lparr>identifierGenerator = 1,
     registry = [(''toObject'',
       \<lparr>expression = LiteralExpression toObjectSource, uid = ''$0'', inserted = False\<rparr>)]\<rparr>) \<and>
   LiteralExpression toObjectSource \<noteq> literalParser ''function() {}'' ''toObject''"
proof -
  have n: "''toObject'' \<notin> registered (newRuntimeInliner (0::nat))"
    by (simp add: registered_def newRuntimeInliner_def)
  have s: "inShared ''toObject''" "sharedValue ''toObject'' = SourceText toObjectSource"
    by (simp_all add: inShared_def sharedValue_def shared_def)
  have tr: "truthy (SourceText toObjectSource)"
    by (simp add: toObjectSource_def)
  have "get literalParser counterGenerator ''toObject'' (SourceText ''function() {}'')
     (newRuntimeInliner (0::nat)) =
   (Inr (IdentifierExpression ''$0''),
    \<lparr>identifierGenerator = 1,
     registry = [(''toObject'',
       \<lparr>expression = LiteralExpression toObjectSource, uid = ''$0'', inserted = False\<rparr>)]\<rparr>)"
    using n s tr
      register_plain [OF n placeholders_toObjectSource, where parse = literalParser
        and gen = counterGenerator]
    unfolding get_def assert_def registered_def
    by (simp add: getAsIdentifierExpression_def createIdentifierExpression_def
        newRuntimeInliner_def counterGenerator_def literalParser_def del: truthy.simps)
  moreover have "LiteralExpression toObjectSource \<noteq> literalParser ''function() {}'' ''toObject''"
    by (simp add: literalParser_def toObjectSource_def)
  ultimately show ?thesis by simp
qed

theorem get_unregistered_witness:
  "get literalParser counterGenerator ''helper'' (SourceText ''function() {}'')
     (newRuntimeInliner (0::nat)) =
   (Inr (IdentifierExpression ''$0''),
    \<lparr>identifierGenerator = 1,
     registry = [(''helper'',
       \<lparr>expression = LiteralExpression ''function() {}'', uid = ''$0'', inserted = False\<rparr>)]\<rparr>) \<and>
   get literalParser counterGenerator ''helper'' Undefined (newRuntimeInliner (0::nat)) =
     (Inl AssertionFailed, newRuntimeInliner 0)"
proof -
  have n: "''helper'' \<notin> registered (newRuntimeInliner (0::nat))"
    by (simp add: registered_def newRuntimeInliner_def)
  have i: "\<not> inShared ''helper''"
    by (simp add: inShared_def shared_def objectPrototypeNames_def)
  have p: "placeholders ''function() {}'' = []"
    by simp
  show ?thesis
    using get_unregistered [OF n, where parse = literalParser and gen = counterGenerator
        and opt_source = "SourceText ''function() {}''" and str = "''function() {}''"]
      get_unregistered [OF n, where parse = literalParser and gen = counterGenerator
        and opt_source = Undefined and str = "[]"] i p
    by (simp add: Let_def newRuntimeInliner_def counterGenerator_def literalParser_def
        del: placeholders.simps)
qed

text \<open>
  C9: a placeholder \<^verbatim>\<open>%p\<close> is replaced by the unique identifier of the helper \<open>p\<close> only when
  \<open>p\<close> is a predefined shared helper or is already registered. When the text of a helper
  not yet registered has a placeholder \<open>p\<close> that is neither a helper of \<^verbatim>\<open>shared\<close> nor
  registered, \<open>register\<close> throws a \<^verbatim>\<open>TypeError\<close>; the registry then has no entry for \<open>p\<close>, has
  no entry for the dependent helper (unless that name is itself a shared helper), and has
  gained at most entries of shared helpers. Conversely, whenever the replacement completes,
  every placeholder of the text is a shared helper or was registered before.
\<close>

theorem register_unknown_placeholder:
  "(name \<notin> registered st \<and> p \<in> set (placeholders str) \<and>
    p \<notin> set (map fst shared) \<and> p \<notin> registered st \<longrightarrow>
      fst (register parse gen name (SourceText str) st) = Some TypeError \<and>
      p \<notin> registered (snd (register parse gen name (SourceText str) st)) \<and>
      (name \<notin> set (map fst shared) \<longrightarrow>
         name \<notin> registered (snd (register parse gen name (SourceText str) st))) \<and>
      registered (snd (register parse gen name (SourceText str) st))
        \<subseteq> registered st \<union> set (map fst shared)) \<and>
   (\<forall>out st1. replacePlaceholders parse gen str st = (Inr out, st1) \<longrightarrow>
      (\<forall>q \<in> set (placeholders str). q \<in> set (map fst shared) \<or> q \<in> registered st))"
proof -
  obtain r st1 where r: "replacePlaceholders parse gen str st = (r, st1)"
    by (cases "replacePlaceholders parse gen str st") auto
  note rp = replacePlaceholders_props [where parse = parse and gen = gen and str = str
      and st = st, unfolded r prod.case]
  have a: "fst (register parse gen name (SourceText str) st) = Some TypeError \<and>
      p \<notin> registered (snd (register parse gen name (SourceText str) st)) \<and>
      (name \<notin> set (map fst shared) \<longrightarrow>
         name \<notin> registered (snd (register parse gen name (SourceText str) st))) \<and>
      registered (snd (register parse gen name (SourceText str) st))
        \<subseteq> registered st \<union> set (map fst shared)"
    if h: "name \<notin> registered st \<and> p \<in> set (placeholders str) \<and>
      p \<notin> set (map fst shared) \<and> p \<notin> registered st"
  proof -
    have e: "r = Inl TypeError" using rp h by blast
    then have "register parse gen name (SourceText str) st = (Some TypeError, st1)"
      using h r by (simp add: register.simps registered_def)
    then show ?thesis using rp h by auto
  qed
  have b: "\<forall>q \<in> set (placeholders str). q \<in> set (map fst shared) \<or> q \<in> registered st"
    if "r = Inr out" for out
    using rp that by auto
  show ?thesis using a b r by auto
qed

theorem register_unknown_placeholder_witness:
  "fst (register literalParser counterGenerator ''helper''
          (SourceText ''%toObject(%unknown)'') (newRuntimeInliner (0::nat))) = Some TypeError \<and>
   ''unknown'' \<notin> registered (snd (register literalParser counterGenerator ''helper''
          (SourceText ''%toObject(%unknown)'') (newRuntimeInliner (0::nat)))) \<and>
   ''helper'' \<notin> registered (snd (register literalParser counterGenerator ''helper''
          (SourceText ''%toObject(%unknown)'') (newRuntimeInliner (0::nat))))"
proof -
  have n: "''helper'' \<notin> registered (newRuntimeInliner (0::nat))"
    "''unknown'' \<notin> registered (newRuntimeInliner (0::nat))"
    by (simp_all add: registered_def newRuntimeInliner_def)
  have i: "''unknown'' \<notin> set (map fst shared)" "''helper'' \<notin> set (map fst shared)"
    by (simp_all add: shared_def)
  have p: "''unknown'' \<in> set (placeholders ''%toObject(%unknown)'')"
    by (simp add: isNameChar_def)
  show ?thesis
    using register_unknown_placeholder [where parse = literalParser
        and gen = counterGenerator and name = "''helper''" and p = "''unknown''"
        and str = "''%toObject(%unknown)''" and st = "newRuntimeInliner (0::nat)"] n i p
    by blast
qed

lemma markInserted_all: "\<forall>(name, item) \<in> set (markInserted m). inserted item"
  by (induction m) (auto simp: markInserted_def split: if_splits)

lemma markInserted_id:
  "\<forall>(name, item) \<in> set m. inserted item \<Longrightarrow> markInserted m = m"
  by (induction m) (auto simp: markInserted_def)

lemma filter_inserted_Nil:
  "\<forall>(name, item) \<in> set m. inserted item \<Longrightarrow>
   filter (\<lambda>(name, item). \<not> inserted item) m = []"
  by (induction m) auto

lemma transformProgram_all_inserted:
  assumes "\<forall>(name, item) \<in> set (registry st). inserted item"
  shows "transformProgram st t = (t, st)"
  using assms
  by (simp add: transformProgram_def Let_def filter_inserted_Nil markInserted_id)

text \<open>
  C7: finalization is idempotent. \<open>transformProgram\<close> returns the program and the state
  unchanged when the registry is empty; when some entry is not yet inserted it prepends,
  before all original elements, one variable statement whose declarations bind the unique
  identifier of each such entry to its expression, in registry order, and marks all entries
  inserted; and a call directly after another returns its input program and the state
  unchanged.
\<close>

theorem transformProgram_idempotent:
  "(registry st = [] \<longrightarrow> transformProgram st t = (t, st)) \<and>
   ((\<exists>(name, item) \<in> set (registry st). \<not> inserted item) \<longrightarrow>
      transformProgram st (Program es) =
        (Program
           (VariableStatement (VariableDeclarationList VAR
              (map (\<lambda>(name, item). VariableDeclaration (BindingIdentifier (uid item)) (expression item))
                 (filter (\<lambda>(name, item). \<not> inserted item) (registry st)))) # es),
         st\<lparr>registry := markInserted (registry st)\<rparr>) \<and>
      (\<forall>(name, item) \<in> set (registry (snd (transformProgram st (Program es)))). inserted item)) \<and>
   (\<forall>t1 st1. transformProgram st t = (t1, st1) \<longrightarrow> transformProgram st1 t1 = (t1, st1))"
proof (intro conjI impI allI)
  show "transformProgram st t = (t, st)" if "registry st = []"
    using that by (simp add: transformProgram_def)
next
  assume a: "\<exists>(name, item) \<in> set (registry st). \<not> inserted item"
  then have ne: "filter (\<lambda>(name, item). \<not> inserted item) (registry st) \<noteq> []"
    by (auto simp: filter_empty_conv)
  then have r: "registry st \<noteq> []" by auto
  show r1: "transformProgram st (Program es) =
        (Program
           (VariableStatement (VariableDeclarationList VAR
              (map (\<lambda>(name, item). VariableDeclaration (BindingIdentifier (uid item)) (expression item))
                 (filter (\<lambda>(name, item). \<not> inserted item) (registry st)))) # es),
         st\<lparr>registry := markInserted (registry st)\<rparr>)"
    using ne r
    by (simp add: transformProgram_def Let_def createVariableStatementFromList_def
        createVariableDeclarationListFromDeclarations_def createVariableDeclaration_def)
  show "\<forall>(name, item) \<in> set (registry (snd (transformProgram st (Program es)))). inserted item"
    using markInserted_all [of "registry st"] by (simp add: r1)
next
  fix t1 st1
  assume a: "transformProgram st t = (t1, st1)"
  have "\<forall>(name, item) \<in> set (registry st1). inserted item"
  proof (cases "registry st = []")
    case True
    then show ?thesis using a by (simp add: transformProgram_def)
  next
    case False
    then have "registry st1 = markInserted (registry st)"
      using a by (auto simp: transformProgram_def Let_def split: if_splits)
    then show ?thesis using markInserted_all [of "registry st"] by simp
  qed
  then show "transformProgram st1 t1 = (t1, st1)"
    by (rule transformProgram_all_inserted)
qed

theorem transformProgram_idempotent_witness:
  "transformProgram
     \<lparr>identifierGenerator = (1::nat),
      registry = [(''h'', \<lparr>expression = LiteralExpression ''x'', uid = ''$0'', inserted = False\<rparr>)]\<rparr>
     (Program [NullTree]) =
     (Program [VariableStatement (VariableDeclarationList VAR
                 [VariableDeclaration (BindingIdentifier ''$0'') (LiteralExpression ''x'')]),
               NullTree],
      \<lparr>identifierGenerator = 1,
       registry = [(''h'', \<lparr>expression = LiteralExpression ''x'', uid = ''$0'', inserted = True\<rparr>)]\<rparr>) \<and>
   transformProgram
     \<lparr>identifierGenerator = (1::nat),
      registry = [(''h'', \<lparr>expression = LiteralExpression ''x'', uid = ''$0'', inserted = True\<rparr>)]\<rparr>
     (Program [VariableStatement (VariableDeclarationList VAR
                 [VariableDeclaration (BindingIdentifier ''$0'') (LiteralExpression ''x'')]),
               NullTree]) =
     (Program [VariableStatement (VariableDeclarationList VAR
                 [VariableDeclaration (BindingIdentifier ''$0'') (LiteralExpression ''x'')]),
               NullTree],
      \<lparr>identifierGenerator = 1,
       registry = [(''h'', \<lparr>expression = LiteralExpression ''x'', uid = ''$0'', inserted = True\<rparr>)]\<rparr>)"
proof -
  let ?st = "\<lparr>identifierGenerator = (1::nat),
      registry = [(''h'', \<lparr>expression = LiteralExpression ''x'', uid = ''$0'', inserted = False\<rparr>)]\<rparr>"
  have a: "\<exists>(name, item) \<in> set (registry ?st). \<not> inserted item"
    by simp
  have b: "transformProgram ?st (Program [NullTree]) =
     (Program [VariableStatement (VariableDeclarationList VAR
                 [VariableDeclaration (BindingIdentifier ''$0'') (LiteralExpression ''x'')]),
               NullTree],
      \<lparr>identifierGenerator = 1,
       registry = [(''h'', \<lparr>expression = LiteralExpression ''x'', uid = ''$0'', inserted = True\<rparr>)]\<rparr>)"
    using transformProgram_idempotent [of ?st "Program [NullTree]" "[NullTree]"] a
    by (simp add: markInserted_def)
  show ?thesis
    using transformProgram_idempotent [of ?st "Program [NullTree]" "[NullTree]"] b
    by simp
qed

end
